theory Spec2Isabelle
  imports Main "HOL-Library.Word"
begin

section \<open>The contract AttestFHE: data model\<close>

text \<open>
  The Solidity contract \<open>AttestFHE\<close> is embedded function by function. Storage is a
  record that every operation takes and returns; a Solidity \<open>mapping\<close> is a total
  function whose unwritten slots hold the zero value; \<open>uint256\<close> is a 256-bit word and
  the checked arithmetic of Solidity 0.8 is written out (overflow is the error \<open>Panic\<close>);
  \<open>revert\<close> is the left injection of a sum, and a reverted call leaves storage as it was.
\<close>

type_synonym address = "160 word"
type_synonym uint256 = "256 word"
type_synonym bytes32 = "256 word"
type_synonym bytes = "8 word list"
type_synonym euint32 = "256 word"

record Batch =
  idB :: uint256
  active :: bool
  createdAt :: uint256
  closedAt :: uint256

record DecryptionContext =
  batchId :: uint256
  stateHash :: bytes32
  processed :: bool

datatype event =
    OwnershipTransferred address address
  | ProviderAdded address
  | ProviderRemoved address
  | Paused address
  | Unpaused address
  | CooldownSecondsUpdated uint256 uint256
  | BatchOpened uint256 uint256
  | BatchClosed uint256 uint256
  | AttestationSubmitted address uint256 bytes32
  | DecryptionRequested uint256 uint256
  | DecryptionCompleted uint256 uint256 bytes32

text \<open>
  The nine custom errors of the contract, the arithmetic panic of checked \<open>uint256\<close>
  operations, and \<open>revert("...")\<close> / \<open>require(_, "...")\<close> with their message.
\<close>

datatype error =
    NotOwner
  | NotProvider
  | PausedError
  | CooldownActive
  | BatchNotActive
  | InvalidBatch
  | ReplayAttempt
  | StateMismatch
  | DecryptionFailed
  | Panic
  | RevertMsg string

record storage =
  owner :: address
  isProvider :: "address \<Rightarrow> bool"
  paused :: bool
  cooldownSeconds :: uint256
  lastSubmissionTime :: "address \<Rightarrow> uint256"
  lastDecryptionRequestTime :: "address \<Rightarrow> uint256"
  currentBatchId :: uint256
  batches :: "uint256 \<Rightarrow> Batch"
  decryptionContexts :: "uint256 \<Rightarrow> DecryptionContext"
  events :: "event list"

text \<open>
  What a call sees of its transaction: \<open>msg.sender\<close>, \<open>block.timestamp\<close>, and the
  request id that the decryption bridge hands back when \<open>FHE.requestDecryption\<close> is
  called in this transaction.
\<close>

record tx_env =
  msg_sender :: address
  block_timestamp :: uint256
  bridge_requestId :: uint256

text \<open>
  The imported FHE library and \<open>keccak256(abi.encode(_, _))\<close> are not part of the
  contract's source; they are parameters of the model, fixed for one deployment together
  with \<open>address(this)\<close>:
  \<^item> \<open>FHE_isInitialized\<close>: the library's \<open>isInitialized()\<close> on a ciphertext handle;
  \<^item> \<open>FHE_checkSignatures\<close>: \<open>True\<close> when \<open>FHE.checkSignatures\<close> returns, \<open>False\<close> when
    it reverts;
  \<^item> \<open>keccak256_encode cts a\<close>: \<open>keccak256(abi.encode(cts, a))\<close>;
  \<^item> \<open>dummyCiphertext\<close>: the \<open>bytes32\<close> of the local placeholder built by
    \<open>euint32 memory dummyCiphertext; dummyCiphertext.asEuint32(0);\<close>, the same in
    \<open>requestBatchValidation\<close> and \<open>myCallback\<close>.
  A ciphertext argument is represented by its \<open>bytes32\<close> handle.
\<close>

record extern =
  FHE_isInitialized :: "euint32 \<Rightarrow> bool"
  FHE_checkSignatures :: "uint256 \<Rightarrow> bytes \<Rightarrow> bytes \<Rightarrow> bool"
  keccak256_encode :: "bytes32 list \<Rightarrow> address \<Rightarrow> bytes32"
  dummyCiphertext :: bytes32
  address_this :: address

section \<open>Helpers\<close>

definition checked_add :: "uint256 \<Rightarrow> uint256 \<Rightarrow> error + uint256" where
  "checked_add a b = (if unat a + unat b < 2 ^ 256 then Inr (a + b) else Inl Panic)"

definition emit :: "event \<Rightarrow> storage \<Rightarrow> storage" where
  "emit e s = s\<lparr>events := events s @ [e]\<rparr>"

text \<open>Storage of a contract account before its constructor runs: every slot zero.\<close>

definition zeroBatch :: Batch where
  "zeroBatch = \<lparr>idB = 0, active = False, createdAt = 0, closedAt = 0\<rparr>"

definition zeroContext :: DecryptionContext where
  "zeroContext = \<lparr>batchId = 0, stateHash = 0, processed = False\<rparr>"

definition zeroStorage :: storage where
  "zeroStorage = \<lparr>owner = 0, isProvider = (\<lambda>_. False), paused = False,
     cooldownSeconds = 0, lastSubmissionTime = (\<lambda>_. 0),
     lastDecryptionRequestTime = (\<lambda>_. 0), currentBatchId = 0,
     batches = (\<lambda>_. zeroBatch), decryptionContexts = (\<lambda>_. zeroContext),
     events = []\<rparr>"

section \<open>Modifiers\<close>

text \<open>A modifier takes the rest of the call (the \<open>_;\<close> of the source) as its last argument.\<close>

definition onlyOwner :: "tx_env \<Rightarrow> storage \<Rightarrow> (error + 'a) \<Rightarrow> error + 'a" where
  "onlyOwner c s k = (if msg_sender c \<noteq> owner s then Inl NotOwner else k)"

definition onlyProvider :: "tx_env \<Rightarrow> storage \<Rightarrow> (error + 'a) \<Rightarrow> error + 'a" where
  "onlyProvider c s k = (if \<not> isProvider s (msg_sender c) then Inl NotProvider else k)"

definition whenNotPaused :: "storage \<Rightarrow> (error + 'a) \<Rightarrow> error + 'a" where
  "whenNotPaused s k = (if paused s then Inl PausedError else k)"

definition respectCooldown :: "tx_env \<Rightarrow> storage \<Rightarrow> (error + 'a) \<Rightarrow> error + 'a" where
  "respectCooldown c s k =
     (case checked_add (lastSubmissionTime s (msg_sender c)) (cooldownSeconds s) of
        Inl e \<Rightarrow> Inl e
      | Inr limit \<Rightarrow> if block_timestamp c < limit then Inl CooldownActive else k)"

section \<open>Operations\<close>

text \<open>
  Each function keeps the statement order of its source; the intermediate storages
  \<open>s1\<close>, \<open>s2\<close>, ... are the storage after each assignment. Two statements of the
  source have no counterpart because they neither change storage nor revert:
  \<open>_initIfNeeded()\<close> in \<open>submitAttestation\<close> (it queries \<open>isInitialized\<close> on a local
  value and drops the answer) and the unused local \<open>uint32 result\<close> in \<open>myCallback\<close>.
  In \<open>myCallback\<close> the \<open>try\<close> block reverts with \<open>DecryptionFailed\<close> both when
  \<open>FHE.checkSignatures\<close> reverts (the \<open>catch\<close> branch) and when the cleartext is not 32
  bytes long; \<open>bytes32(cleartexts)\<close> of a 32-byte array is its big-endian value.
\<close>

definition openNewBatch :: "tx_env \<Rightarrow> storage \<Rightarrow> error + storage" where
  "openNewBatch c s =
     (case checked_add (currentBatchId s) 1 of
        Inl e \<Rightarrow> Inl e
      | Inr n \<Rightarrow>
          let s1 = s\<lparr>currentBatchId := n\<rparr>;
              s2 = s1\<lparr>batches := (batches s1)(currentBatchId s1 :=
                     \<lparr>idB = currentBatchId s1, active = True,
                      createdAt = block_timestamp c, closedAt = 0\<rparr>)\<rparr>
          in Inr (emit (BatchOpened (currentBatchId s2) (block_timestamp c)) s2))"

definition constructor :: "tx_env \<Rightarrow> error + storage" where
  "constructor c =
     (let s1 = zeroStorage\<lparr>owner := msg_sender c\<rparr>;
          s2 = s1\<lparr>isProvider := (isProvider s1)(owner s1 := True)\<rparr>;
          s3 = emit (ProviderAdded (owner s2)) s2;
          s4 = s3\<lparr>cooldownSeconds := 60\<rparr>
      in openNewBatch c s4)"

definition transferOwnership :: "tx_env \<Rightarrow> address \<Rightarrow> storage \<Rightarrow> error + storage" where
  "transferOwnership c newOwner s =
     onlyOwner c s
       (let oldOwner = owner s;
            s1 = s\<lparr>owner := newOwner\<rparr>
        in Inr (emit (OwnershipTransferred oldOwner newOwner) s1))"

definition addProvider :: "tx_env \<Rightarrow> address \<Rightarrow> storage \<Rightarrow> error + storage" where
  "addProvider c provider s =
     onlyOwner c s
       (if \<not> isProvider s provider
        then Inr (emit (ProviderAdded provider)
                    (s\<lparr>isProvider := (isProvider s)(provider := True)\<rparr>))
        else Inr s)"

definition removeProvider :: "tx_env \<Rightarrow> address \<Rightarrow> storage \<Rightarrow> error + storage" where
  "removeProvider c provider s =
     onlyOwner c s
       (if isProvider s provider
        then Inr (emit (ProviderRemoved provider)
                    (s\<lparr>isProvider := (isProvider s)(provider := False)\<rparr>))
        else Inr s)"

definition pause :: "tx_env \<Rightarrow> storage \<Rightarrow> error + storage" where
  "pause c s =
     onlyOwner c s (whenNotPaused s
       (Inr (emit (Paused (msg_sender c)) (s\<lparr>paused := True\<rparr>))))"

definition unpause :: "tx_env \<Rightarrow> storage \<Rightarrow> error + storage" where
  "unpause c s =
     onlyOwner c s (Inr (emit (Unpaused (msg_sender c)) (s\<lparr>paused := False\<rparr>)))"

definition setCooldownSeconds :: "tx_env \<Rightarrow> uint256 \<Rightarrow> storage \<Rightarrow> error + storage" where
  "setCooldownSeconds c newCooldown s =
     onlyOwner c s
       (if \<not> newCooldown > 0 then Inl (RevertMsg ''Cooldown must be positive'')
        else let oldCooldown = cooldownSeconds s;
                 s1 = s\<lparr>cooldownSeconds := newCooldown\<rparr>
             in Inr (emit (CooldownSecondsUpdated oldCooldown newCooldown) s1))"

definition closeCurrentBatch :: "tx_env \<Rightarrow> storage \<Rightarrow> error + storage" where
  "closeCurrentBatch c s =
     onlyOwner c s
       (let batch = batches s (currentBatchId s) in
        if idB batch = 0 then Inl InvalidBatch
        else if \<not> active batch then Inl BatchNotActive
        else let s1 = s\<lparr>batches := (batches s)(currentBatchId s :=
                         batch\<lparr>active := False\<rparr>)\<rparr>;
                 s2 = s1\<lparr>batches := (batches s1)(currentBatchId s1 :=
                         (batches s1 (currentBatchId s1))\<lparr>closedAt := block_timestamp c\<rparr>)\<rparr>;
                 s3 = emit (BatchClosed (currentBatchId s2) (block_timestamp c)) s2
             in openNewBatch c s3)"

definition hashCiphertexts :: "extern \<Rightarrow> bytes32 list \<Rightarrow> bytes32" where
  "hashCiphertexts x cts = keccak256_encode x cts (address_this x)"

definition requireInitialized :: "extern \<Rightarrow> euint32 \<Rightarrow> (error + 'a) \<Rightarrow> error + 'a" where
  "requireInitialized x v k =
     (if \<not> FHE_isInitialized x v then Inl (RevertMsg ''FHE value not initialized'') else k)"

definition submitAttestation :: "extern \<Rightarrow> tx_env \<Rightarrow> euint32 \<Rightarrow> storage \<Rightarrow> error + storage" where
  "submitAttestation x c encryptedData s =
     onlyProvider c s (whenNotPaused s (respectCooldown c s
       (requireInitialized x encryptedData
         (let s1 = s\<lparr>lastSubmissionTime :=
                      (lastSubmissionTime s)(msg_sender c := block_timestamp c)\<rparr>;
              currentBatch = batches s1 (currentBatchId s1)
          in if \<not> active currentBatch then Inl BatchNotActive
             else Inr (emit (AttestationSubmitted (msg_sender c) (currentBatchId s1)
                               encryptedData) s1)))))"

definition requestBatchValidation :: "extern \<Rightarrow> tx_env \<Rightarrow> uint256 \<Rightarrow> storage \<Rightarrow> error + storage" where
  "requestBatchValidation x c batchId' s =
     onlyOwner c s (whenNotPaused s (respectCooldown c s
       (if batchId' = 0 \<or> batchId' \<ge> currentBatchId s \<or> closedAt (batches s batchId') = 0
        then Inl InvalidBatch
        else
          let s1 = s\<lparr>lastDecryptionRequestTime :=
                       (lastDecryptionRequestTime s)(msg_sender c := block_timestamp c)\<rparr>;
              cts = [dummyCiphertext x];
              stateHash' = hashCiphertexts x cts;
              requestId = bridge_requestId c;
              s2 = s1\<lparr>decryptionContexts := (decryptionContexts s1)(requestId :=
                       \<lparr>batchId = batchId', stateHash = stateHash', processed = False\<rparr>)\<rparr>
          in Inr (emit (DecryptionRequested requestId batchId') s2))))"

definition myCallback :: "extern \<Rightarrow> tx_env \<Rightarrow> uint256 \<Rightarrow> bytes \<Rightarrow> bytes \<Rightarrow> storage \<Rightarrow> error + storage" where
  "myCallback x c requestId cleartexts proof' s =
     (if processed (decryptionContexts s requestId) then Inl ReplayAttempt
      else
        let cts = [dummyCiphertext x];
            currentHash = hashCiphertexts x cts
        in if currentHash \<noteq> stateHash (decryptionContexts s requestId) then Inl StateMismatch
           else if \<not> FHE_checkSignatures x requestId cleartexts proof' then Inl DecryptionFailed
           else if length cleartexts \<noteq> 32 then Inl DecryptionFailed
           else
             let s1 = s\<lparr>decryptionContexts := (decryptionContexts s)(requestId :=
                          (decryptionContexts s requestId)\<lparr>processed := True\<rparr>)\<rparr>
             in Inr (emit (DecryptionCompleted requestId
                             (batchId (decryptionContexts s1 requestId))
                             (word_rcat cleartexts)) s1))"

section \<open>Transactions\<close>

text \<open>
  The external entry points of the contract. A transaction that reverts reports its
  error and keeps the storage it started from; one that returns installs the new storage.
\<close>

datatype call =
    TransferOwnership address
  | AddProvider address
  | RemoveProvider address
  | Pause
  | Unpause
  | SetCooldownSeconds uint256
  | CloseCurrentBatch
  | SubmitAttestation euint32
  | RequestBatchValidation uint256
  | MyCallback uint256 bytes bytes

fun dispatch :: "extern \<Rightarrow> tx_env \<Rightarrow> call \<Rightarrow> storage \<Rightarrow> error + storage" where
  "dispatch x c (TransferOwnership a) s = transferOwnership c a s"
| "dispatch x c (AddProvider a) s = addProvider c a s"
| "dispatch x c (RemoveProvider a) s = removeProvider c a s"
| "dispatch x c Pause s = pause c s"
| "dispatch x c Unpause s = unpause c s"
| "dispatch x c (SetCooldownSeconds n) s = setCooldownSeconds c n s"
| "dispatch x c CloseCurrentBatch s = closeCurrentBatch c s"
| "dispatch x c (SubmitAttestation d) s = submitAttestation x c d s"
| "dispatch x c (RequestBatchValidation b) s = requestBatchValidation x c b s"
| "dispatch x c (MyCallback r ct pf) s = myCallback x c r ct pf s"

datatype outcome = Success | Reverted error

definition transact :: "extern \<Rightarrow> tx_env \<Rightarrow> call \<Rightarrow> storage \<Rightarrow> outcome \<times> storage" where
  "transact x c f s =
     (case dispatch x c f s of Inl e \<Rightarrow> (Reverted e, s) | Inr s' \<Rightarrow> (Success, s'))"

fun run :: "extern \<Rightarrow> (tx_env \<times> call) list \<Rightarrow> storage \<Rightarrow> storage" where
  "run x [] s = s"
| "run x ((c, f) # txs) s = run x txs (snd (transact x c f s))"

text \<open>The storages a deployed contract can be in.\<close>

inductive reachable :: "extern \<Rightarrow> storage \<Rightarrow> bool" for x :: extern where
  deployed: "constructor c = Inr s \<Longrightarrow> reachable x s"
| called: "reachable x s \<Longrightarrow> reachable x (snd (transact x c f s))"

section \<open>The storage at the point where a call stops\<close>

text \<open>
  A Solidity \<open>revert\<close> undoes every write of the transaction. To see what is undone,
  the entry points are given once more in a form that keeps the storage as the call
  left it: \<open>Returns s'\<close> when the call returns with storage \<open>s'\<close>, and
  \<open>Reverts e dirty\<close> when it reaches a \<open>revert\<close> with error \<open>e\<close> while the storage,
  with the writes made so far, is \<open>dirty\<close>. The statements, their order and the
  intermediate storages are those of the operations above; section
  \<open>Reverted calls\<close> proves that the two forms agree on every call.
\<close>

datatype halt = Returns storage | Reverts error storage

definition onlyOwner_exec :: "tx_env \<Rightarrow> storage \<Rightarrow> halt \<Rightarrow> halt" where
  "onlyOwner_exec c s k = (if msg_sender c \<noteq> owner s then Reverts NotOwner s else k)"

definition onlyProvider_exec :: "tx_env \<Rightarrow> storage \<Rightarrow> halt \<Rightarrow> halt" where
  "onlyProvider_exec c s k =
     (if \<not> isProvider s (msg_sender c) then Reverts NotProvider s else k)"

definition whenNotPaused_exec :: "storage \<Rightarrow> halt \<Rightarrow> halt" where
  "whenNotPaused_exec s k = (if paused s then Reverts PausedError s else k)"

definition respectCooldown_exec :: "tx_env \<Rightarrow> storage \<Rightarrow> halt \<Rightarrow> halt" where
  "respectCooldown_exec c s k =
     (case checked_add (lastSubmissionTime s (msg_sender c)) (cooldownSeconds s) of
        Inl e \<Rightarrow> Reverts e s
      | Inr limit \<Rightarrow> if block_timestamp c < limit then Reverts CooldownActive s else k)"

definition openNewBatch_exec :: "tx_env \<Rightarrow> storage \<Rightarrow> halt" where
  "openNewBatch_exec c s =
     (case checked_add (currentBatchId s) 1 of
        Inl e \<Rightarrow> Reverts e s
      | Inr n \<Rightarrow>
          let s1 = s\<lparr>currentBatchId := n\<rparr>;
              s2 = s1\<lparr>batches := (batches s1)(currentBatchId s1 :=
                     \<lparr>idB = currentBatchId s1, active = True,
                      createdAt = block_timestamp c, closedAt = 0\<rparr>)\<rparr>
          in Returns (emit (BatchOpened (currentBatchId s2) (block_timestamp c)) s2))"

definition transferOwnership_exec :: "tx_env \<Rightarrow> address \<Rightarrow> storage \<Rightarrow> halt" where
  "transferOwnership_exec c newOwner s =
     onlyOwner_exec c s
       (let oldOwner = owner s;
            s1 = s\<lparr>owner := newOwner\<rparr>
        in Returns (emit (OwnershipTransferred oldOwner newOwner) s1))"

definition addProvider_exec :: "tx_env \<Rightarrow> address \<Rightarrow> storage \<Rightarrow> halt" where
  "addProvider_exec c provider s =
     onlyOwner_exec c s
       (if \<not> isProvider s provider
        then Returns (emit (ProviderAdded provider)
                        (s\<lparr>isProvider := (isProvider s)(provider := True)\<rparr>))
        else Returns s)"

definition removeProvider_exec :: "tx_env \<Rightarrow> address \<Rightarrow> storage \<Rightarrow> halt" where
  "removeProvider_exec c provider s =
     onlyOwner_exec c s
       (if isProvider s provider
        then Returns (emit (ProviderRemoved provider)
                        (s\<lparr>isProvider := (isProvider s)(provider := False)\<rparr>))
        else Returns s)"

definition pause_exec :: "tx_env \<Rightarrow> storage \<Rightarrow> halt" where
  "pause_exec c s =
     onlyOwner_exec c s (whenNotPaused_exec s
       (Returns (emit (Paused (msg_sender c)) (s\<lparr>paused := True\<rparr>))))"

definition unpause_exec :: "tx_env \<Rightarrow> storage \<Rightarrow> halt" where
  "unpause_exec c s =
     onlyOwner_exec c s (Returns (emit (Unpaused (msg_sender c)) (s\<lparr>paused := False\<rparr>)))"

definition setCooldownSeconds_exec :: "tx_env \<Rightarrow> uint256 \<Rightarrow> storage \<Rightarrow> halt" where
  "setCooldownSeconds_exec c newCooldown s =
     onlyOwner_exec c s
       (if \<not> newCooldown > 0 then Reverts (RevertMsg ''Cooldown must be positive'') s
        else let oldCooldown = cooldownSeconds s;
                 s1 = s\<lparr>cooldownSeconds := newCooldown\<rparr>
             in Returns (emit (CooldownSecondsUpdated oldCooldown newCooldown) s1))"

definition closeCurrentBatch_exec :: "tx_env \<Rightarrow> storage \<Rightarrow> halt" where
  "closeCurrentBatch_exec c s =
     onlyOwner_exec c s
       (let batch = batches s (currentBatchId s) in
        if idB batch = 0 then Reverts InvalidBatch s
        else if \<not> active batch then Reverts BatchNotActive s
        else let s1 = s\<lparr>batches := (batches s)(currentBatchId s :=
                         batch\<lparr>active := False\<rparr>)\<rparr>;
                 s2 = s1\<lparr>batches := (batches s1)(currentBatchId s1 :=
                         (batches s1 (currentBatchId s1))\<lparr>closedAt := block_timestamp c\<rparr>)\<rparr>;
                 s3 = emit (BatchClosed (currentBatchId s2) (block_timestamp c)) s2
             in openNewBatch_exec c s3)"

definition submitAttestation_exec :: "extern \<Rightarrow> tx_env \<Rightarrow> euint32 \<Rightarrow> storage \<Rightarrow> halt" where
  "submitAttestation_exec x c encryptedData s =
     onlyProvider_exec c s (whenNotPaused_exec s (respectCooldown_exec c s
       (if \<not> FHE_isInitialized x encryptedData
        then Reverts (RevertMsg ''FHE value not initialized'') s
        else
          let s1 = s\<lparr>lastSubmissionTime :=
                       (lastSubmissionTime s)(msg_sender c := block_timestamp c)\<rparr>;
              currentBatch = batches s1 (currentBatchId s1)
          in if \<not> active currentBatch then Reverts BatchNotActive s1
             else Returns (emit (AttestationSubmitted (msg_sender c) (currentBatchId s1)
                                   encryptedData) s1))))"

definition requestBatchValidation_exec :: "extern \<Rightarrow> tx_env \<Rightarrow> uint256 \<Rightarrow> storage \<Rightarrow> halt" where
  "requestBatchValidation_exec x c batchId' s =
     onlyOwner_exec c s (whenNotPaused_exec s (respectCooldown_exec c s
       (if batchId' = 0 \<or> batchId' \<ge> currentBatchId s \<or> closedAt (batches s batchId') = 0
        then Reverts InvalidBatch s
        else
          let s1 = s\<lparr>lastDecryptionRequestTime :=
                       (lastDecryptionRequestTime s)(msg_sender c := block_timestamp c)\<rparr>;
              cts = [dummyCiphertext x];
              stateHash' = hashCiphertexts x cts;
              requestId = bridge_requestId c;
              s2 = s1\<lparr>decryptionContexts := (decryptionContexts s1)(requestId :=
                       \<lparr>batchId = batchId', stateHash = stateHash', processed = False\<rparr>)\<rparr>
          in Returns (emit (DecryptionRequested requestId batchId') s2))))"

definition myCallback_exec :: "extern \<Rightarrow> tx_env \<Rightarrow> uint256 \<Rightarrow> bytes \<Rightarrow> bytes \<Rightarrow> storage \<Rightarrow> halt" where
  "myCallback_exec x c requestId cleartexts proof' s =
     (if processed (decryptionContexts s requestId) then Reverts ReplayAttempt s
      else
        let cts = [dummyCiphertext x];
            currentHash = hashCiphertexts x cts
        in if currentHash \<noteq> stateHash (decryptionContexts s requestId)
           then Reverts StateMismatch s
           else if \<not> FHE_checkSignatures x requestId cleartexts proof'
           then Reverts DecryptionFailed s
           else if length cleartexts \<noteq> 32 then Reverts DecryptionFailed s
           else
             let s1 = s\<lparr>decryptionContexts := (decryptionContexts s)(requestId :=
                          (decryptionContexts s requestId)\<lparr>processed := True\<rparr>)\<rparr>
             in Returns (emit (DecryptionCompleted requestId
                                 (batchId (decryptionContexts s1 requestId))
                                 (word_rcat cleartexts)) s1))"

fun exec :: "extern \<Rightarrow> tx_env \<Rightarrow> call \<Rightarrow> storage \<Rightarrow> halt" where
  "exec x c (TransferOwnership a) s = transferOwnership_exec c a s"
| "exec x c (AddProvider a) s = addProvider_exec c a s"
| "exec x c (RemoveProvider a) s = removeProvider_exec c a s"
| "exec x c Pause s = pause_exec c s"
| "exec x c Unpause s = unpause_exec c s"
| "exec x c (SetCooldownSeconds n) s = setCooldownSeconds_exec c n s"
| "exec x c CloseCurrentBatch s = closeCurrentBatch_exec c s"
| "exec x c (SubmitAttestation d) s = submitAttestation_exec x c d s"
| "exec x c (RequestBatchValidation b) s = requestBatchValidation_exec x c b s"
| "exec x c (MyCallback r ct pf) s = myCallback_exec x c r ct pf s"

text \<open>
  What the EVM makes of a stopped call that started from storage \<open>s\<close>: the storage of
  a returning call is installed, the dirty storage of a reverting call is dropped.
\<close>

definition commit :: "storage \<Rightarrow> halt \<Rightarrow> outcome \<times> storage" where
  "commit s h = (case h of Returns s' \<Rightarrow> (Success, s') | Reverts e dirty \<Rightarrow> (Reverted e, s))"

section \<open>Notions used by the properties\<close>

text \<open>The ids announced by \<open>BatchOpened\<close> events, oldest first.\<close>

primrec openedBatchIds :: "event list \<Rightarrow> uint256 list" where
  "openedBatchIds [] = []"
| "openedBatchIds (e # es) =
     (case e of BatchOpened b t \<Rightarrow> b # openedBatchIds es | _ \<Rightarrow> openedBatchIds es)"

text \<open>
  Ids were handed out as 1, 2, ..., \<open>currentBatchId\<close>, each once, and the batch table
  holds a batch under exactly these keys, each carrying its key as id.
\<close>

definition idsInOrder :: "storage \<Rightarrow> bool" where
  "idsInOrder s \<longleftrightarrow>
     openedBatchIds (events s) = map word_of_nat [1..<Suc (unat (currentBatchId s))] \<and>
     (\<forall>i. idB (batches s i) = (if i \<noteq> 0 \<and> i \<le> currentBatchId s then i else 0))"

text \<open>Exactly one batch is active, the current one, and ids are in order.\<close>

definition batchInvariant :: "storage \<Rightarrow> bool" where
  "batchInvariant s \<longleftrightarrow>
     currentBatchId s \<noteq> 0 \<and>
     (\<forall>i. active (batches s i) \<longleftrightarrow> i = currentBatchId s) \<and>
     idsInOrder s"

text \<open>
  The condition under which \<open>respectCooldown\<close> lets a call through: the checked sum
  does not overflow and \<open>block.timestamp\<close> is not below it.
\<close>

definition cooldownElapsed :: "tx_env \<Rightarrow> storage \<Rightarrow> bool" where
  "cooldownElapsed c s \<longleftrightarrow>
     unat (lastSubmissionTime s (msg_sender c)) + unat (cooldownSeconds s) < 2 ^ 256 \<and>
     \<not> block_timestamp c < lastSubmissionTime s (msg_sender c) + cooldownSeconds s"

text \<open>
  A transaction in which the bridge hands out request id \<open>r\<close> again: a call of
  \<open>requestBatchValidation\<close> whose \<open>FHE.requestDecryption\<close> returns \<open>r\<close>.
\<close>

fun isRequest :: "call \<Rightarrow> bool" where
  "isRequest (RequestBatchValidation b) = True"
| "isRequest _ = False"

definition reissues :: "uint256 \<Rightarrow> tx_env \<times> call \<Rightarrow> bool" where
  "reissues r t \<longleftrightarrow> isRequest (snd t) \<and> bridge_requestId (fst t) = r"

text \<open>
  The specification's "live ordered list of ciphertext handles recorded for a batch".
  The contract keeps no such list in storage; the only record of a submission is its
  \<open>AttestationSubmitted\<close> event, so the list is read off the event log, in submission order.
\<close>

primrec spec_liveHandles :: "uint256 \<Rightarrow> event list \<Rightarrow> bytes32 list" where
  "spec_liveHandles b [] = []"
| "spec_liveHandles b (e # es) =
     (case e of
        AttestationSubmitted p b' h \<Rightarrow>
          if b' = b then h # spec_liveHandles b es else spec_liveHandles b es
      | _ \<Rightarrow> spec_liveHandles b es)"

subsection \<open>A concrete deployment for evaluating the model\<close>

text \<open>
  A stand-in for the external library with computable functions: a handle is initialised
  when non-zero, the only accepted proof is the single byte 1, and the hash is a
  polynomial over the handles seeded with the contract address (a toy in place of
  keccak256, enough to tell short lists apart).
\<close>

definition demoExtern :: extern where
  "demoExtern = \<lparr>FHE_isInitialized = (\<lambda>h. h \<noteq> 0),
     FHE_checkSignatures = (\<lambda>r ct pf. pf = [1]),
     keccak256_encode = (\<lambda>cts a. foldr (\<lambda>h acc. h + 31 * acc) cts (ucast a + 1)),
     dummyCiphertext = 0,
     address_this = 9\<rparr>"

definition at :: "address \<Rightarrow> uint256 \<Rightarrow> uint256 \<Rightarrow> tx_env" where
  "at a t r = \<lparr>msg_sender = a, block_timestamp = t, bridge_requestId = r\<rparr>"

text \<open>The storage right after account 1 deploys the contract at time 1000.\<close>

definition deployedStorage :: storage where
  "deployedStorage = projr (constructor (at 1 1000 0))"

text \<open>
  Account 1 then submits handle 5 into batch 1 (time 1500) and closes batch 1 (time 2000).
\<close>

definition closedStorage :: storage where
  "closedStorage =
     run demoExtern [(at 1 1500 0, SubmitAttestation 5), (at 1 2000 0, CloseCurrentBatch)]
       deployedStorage"

text \<open>
  Account 1 then requests validation of batch 1 (time 3000); the bridge answers with
  request id 7.
\<close>

definition requestedStorage :: storage where
  "requestedStorage =
     snd (transact demoExtern (at 1 3000 7) (RequestBatchValidation 1) closedStorage)"

text \<open>
  A storage written by hand, which no sequence of calls produces: the deployed storage
  with batch 1 still current but marked inactive. It exercises the \<open>BatchNotActive\<close>
  branches of the code.
\<close>

definition inactiveStorage :: storage where
  "inactiveStorage = deployedStorage\<lparr>batches := (batches deployedStorage)
     (1 := \<lparr>idB = 1, active = False, createdAt = 1000, closedAt = 1500\<rparr>)\<rparr>"

section \<open>Basic facts\<close>

lemmas modifier_defs =
  onlyOwner_def onlyProvider_def whenNotPaused_def respectCooldown_def requireInitialized_def

lemmas model_defs =
  constructor_def openNewBatch_def transferOwnership_def addProvider_def removeProvider_def
  pause_def unpause_def setCooldownSeconds_def closeCurrentBatch_def hashCiphertexts_def
  submitAttestation_def requestBatchValidation_def myCallback_def transact_def
  modifier_defs checked_add_def emit_def zeroStorage_def zeroBatch_def zeroContext_def

lemma two_not_le_one: "\<not> (2 :: uint256) \<le> 1"
  by (simp add: word_le_nat_alt)

lemmas demo_defs =
  requestedStorage_def closedStorage_def deployedStorage_def demoExtern_def at_def
  reissues_def two_not_le_one

lemma respectCooldown_pass: "cooldownElapsed c s \<Longrightarrow> respectCooldown c s k = k"
  by (simp add: respectCooldown_def cooldownElapsed_def checked_add_def)

lemma checked_add_one:
  "checked_add a 1 = Inr n \<Longrightarrow> n = a + 1 \<and> unat n = Suc (unat a)"
  by (auto simp: checked_add_def unat_word_ariths split: if_splits)

section \<open>Construction\<close>

lemma constructor_result:
  "constructor c = Inr
     \<lparr>owner = msg_sender c, isProvider = (\<lambda>_. False)(msg_sender c := True), paused = False,
      cooldownSeconds = 60, lastSubmissionTime = (\<lambda>_. 0),
      lastDecryptionRequestTime = (\<lambda>_. 0), currentBatchId = 1,
      batches = (\<lambda>_. zeroBatch)(1 := \<lparr>idB = 1, active = True,
         createdAt = block_timestamp c, closedAt = 0\<rparr>),
      decryptionContexts = (\<lambda>_. zeroContext),
      events = [ProviderAdded (msg_sender c), BatchOpened 1 (block_timestamp c)]\<rparr>"
  by (simp add: constructor_def openNewBatch_def checked_add_def emit_def zeroStorage_def
      Let_def)

text \<open>
  Claim C10. The constructor always succeeds. It makes the deployer the owner, registers
  the deployer as a provider and emits \<open>ProviderAdded\<close> for it, sets the cooldown to 60
  seconds and opens batch 1 as the active batch. On the deployed storage the owner's
  \<open>submitAttestation\<close> succeeds without any \<open>addProvider\<close>, for an initialised
  ciphertext and any block time from 60 on (the owner's last submission time starts at 0).
\<close>

theorem constructor_deploys:
  "\<exists>s. constructor c = Inr s \<and>
       owner s = msg_sender c \<and> isProvider s (msg_sender c) \<and>
       cooldownSeconds s = 60 \<and> \<not> paused s \<and>
       currentBatchId s = 1 \<and>
       batches s 1 = \<lparr>idB = 1, active = True, createdAt = block_timestamp c, closedAt = 0\<rparr> \<and>
       events s = [ProviderAdded (msg_sender c), BatchOpened 1 (block_timestamp c)] \<and>
       (\<forall>c' d. msg_sender c' = msg_sender c \<and> 60 \<le> block_timestamp c' \<and>
                FHE_isInitialized x d \<longrightarrow>
          transact x c' (SubmitAttestation d) s =
            (Success, s\<lparr>lastSubmissionTime := (\<lambda>_. 0)(msg_sender c := block_timestamp c'),
                        events := events s @
                          [AttestationSubmitted (msg_sender c) 1 d]\<rparr>))"
  by (auto simp: constructor_result transact_def submitAttestation_def modifier_defs
      checked_add_def emit_def Let_def)

theorem constructor_deploys_witness:
  "\<exists>s. constructor (at 1 1000 0) = Inr s \<and> owner s = 1 \<and> isProvider s 1 \<and>
       cooldownSeconds s = 60 \<and> currentBatchId s = 1 \<and> active (batches s 1) \<and>
       events s = [ProviderAdded 1, BatchOpened 1 1000] \<and>
       FHE_isInitialized demoExtern 5 \<and> (60::uint256) \<le> 1001 \<and>
       fst (transact demoExtern (at 1 1001 0) (SubmitAttestation 5) s) = Success"
  using constructor_deploys [of "at 1 1000 0" demoExtern]
  apply (elim exE conjE)
  subgoal for s
    apply (rule exI [of _ s])
    apply (drule spec [of _ "at 1 1001 0"])
    apply (drule spec [of _ 5])
    apply (simp add: at_def demoExtern_def)
    done
  done

section \<open>Reverted calls\<close>

lemmas exec_defs =
  transferOwnership_exec_def addProvider_exec_def removeProvider_exec_def pause_exec_def
  unpause_exec_def setCooldownSeconds_exec_def closeCurrentBatch_exec_def
  openNewBatch_exec_def submitAttestation_exec_def requestBatchValidation_exec_def
  myCallback_exec_def onlyOwner_exec_def onlyProvider_exec_def whenNotPaused_exec_def
  respectCooldown_exec_def

lemma openNewBatch_exec_agrees:
  "openNewBatch c s =
     (case openNewBatch_exec c s of Returns s' \<Rightarrow> Inr s' | Reverts e dirty \<Rightarrow> Inl e)"
  by (simp add: openNewBatch_def openNewBatch_exec_def Let_def split: sum.splits)

lemma exec_agrees:
  "dispatch x c f s =
     (case exec x c f s of Returns s' \<Rightarrow> Inr s' | Reverts e dirty \<Rightarrow> Inl e)"
proof (cases f)
  case CloseCurrentBatch
  then show ?thesis
    by (simp add: closeCurrentBatch_def closeCurrentBatch_exec_def onlyOwner_def
        onlyOwner_exec_def openNewBatch_exec_agrees Let_def)
next
  case (SubmitAttestation d)
  then show ?thesis
    by (simp add: submitAttestation_def submitAttestation_exec_def modifier_defs
        onlyProvider_exec_def whenNotPaused_exec_def respectCooldown_exec_def Let_def
        split: sum.splits)
next
  case (RequestBatchValidation b)
  then show ?thesis
    by (simp add: requestBatchValidation_def requestBatchValidation_exec_def modifier_defs
        onlyOwner_exec_def whenNotPaused_exec_def respectCooldown_exec_def Let_def
        split: sum.splits)
next
  case (MyCallback r ct pf)
  then show ?thesis
    by (simp add: myCallback_def myCallback_exec_def Let_def)
qed (simp_all add: transferOwnership_def addProvider_def removeProvider_def pause_def
      unpause_def setCooldownSeconds_def modifier_defs exec_defs Let_def)

lemma transact_commit: "transact x c f s = commit s (exec x c f s)"
  by (simp add: transact_def commit_def exec_agrees split: halt.splits)

lemma openNewBatch_exec_Reverts:
  "openNewBatch_exec c s = Reverts e dirty \<Longrightarrow> e = Panic \<and> dirty = s"
  by (auto simp: openNewBatch_exec_def checked_add_def Let_def split: if_splits)

lemma exec_dirty:
  assumes "exec x c f s = Reverts e dirty" and "dirty \<noteq> s"
  shows "(\<exists>d. f = SubmitAttestation d \<and> e = BatchNotActive \<and>
            dirty = s\<lparr>lastSubmissionTime :=
                        (lastSubmissionTime s)(msg_sender c := block_timestamp c)\<rparr>) \<or>
         (f = CloseCurrentBatch \<and> e = Panic)"
proof (cases f)
  case CloseCurrentBatch
  with assms show ?thesis
    by (auto simp: closeCurrentBatch_exec_def onlyOwner_exec_def Let_def
        split: if_splits dest: openNewBatch_exec_Reverts)
next
  case (SubmitAttestation d)
  with assms show ?thesis
    by (auto simp: submitAttestation_exec_def onlyProvider_exec_def whenNotPaused_exec_def
        respectCooldown_exec_def Let_def split: if_splits sum.splits)
next
  case (RequestBatchValidation b)
  with assms show ?thesis
    by (auto simp: requestBatchValidation_exec_def onlyOwner_exec_def whenNotPaused_exec_def
        respectCooldown_exec_def Let_def split: if_splits sum.splits)
next
  case (MyCallback r ct pf)
  with assms show ?thesis
    by (auto simp: myCallback_exec_def Let_def split: if_splits)
qed (use assms in \<open>auto simp: transferOwnership_exec_def addProvider_exec_def
      removeProvider_exec_def pause_exec_def unpause_exec_def setCooldownSeconds_exec_def
      onlyOwner_exec_def whenNotPaused_exec_def Let_def split: if_splits\<close>)

lemma submitAttestation_pass:
  assumes "isProvider s (msg_sender c)" and "\<not> paused s" and "cooldownElapsed c s"
    and "FHE_isInitialized x d" and "active (batches s (currentBatchId s))"
  shows "submitAttestation x c d s = Inr
     (s\<lparr>lastSubmissionTime := (lastSubmissionTime s)(msg_sender c := block_timestamp c),
        events := events s @ [AttestationSubmitted (msg_sender c) (currentBatchId s) d]\<rparr>)"
  using assms
  by (simp add: submitAttestation_def onlyProvider_def whenNotPaused_def
      respectCooldown_pass requireInitialized_def emit_def Let_def)

lemma submitAttestation_Inr:
  assumes "submitAttestation x c d s = Inr s'"
  shows "isProvider s (msg_sender c) \<and> \<not> paused s \<and> cooldownElapsed c s \<and>
         FHE_isInitialized x d \<and> active (batches s (currentBatchId s))"
  using assms
  by (auto simp: submitAttestation_def modifier_defs checked_add_def cooldownElapsed_def
      Let_def split: if_splits)

lemma submitAttestation_exec_BatchNotActive:
  assumes "isProvider s (msg_sender c)" and "\<not> paused s" and "cooldownElapsed c s"
    and "FHE_isInitialized x d" and "\<not> active (batches s (currentBatchId s))"
  shows "submitAttestation_exec x c d s = Reverts BatchNotActive
     (s\<lparr>lastSubmissionTime := (lastSubmissionTime s)(msg_sender c := block_timestamp c)\<rparr>)"
  using assms
  by (simp add: submitAttestation_exec_def onlyProvider_exec_def whenNotPaused_exec_def
      respectCooldown_exec_def cooldownElapsed_def checked_add_def Let_def)

text \<open>
  Claim C9. Every entry point, run on the contract's code and stopped by a \<open>revert\<close>,
  is a failed transaction that reports the error and leaves the storage exactly as it
  was before the call. Only two paths of the code have written anything when they
  revert: \<open>submitAttestation\<close> at \<open>BatchNotActive\<close>, which has already stored the block
  time as the caller's \<open>lastSubmissionTime\<close>, and \<open>closeCurrentBatch\<close> when the batch
  counter overflows; every other \<open>revert\<close> is reached with the storage untouched, and
  in all cases the write is undone. For \<open>submitAttestation\<close>: it succeeds exactly when
  every gate passes (provider, not paused, cooldown elapsed, ciphertext initialised,
  current batch active); then, and only then, the caller's \<open>lastSubmissionTime\<close> becomes
  the block time, and after any rejected submit the whole table of last submission
  times is as before, so a rejected call never consumes the cooldown window.
\<close>

theorem failed_call_rolls_back:
  "transact x c f s = commit s (exec x c f s) \<and>
   (fst (transact x c f s) = Reverted e \<longrightarrow> snd (transact x c f s) = s) \<and>
   (exec x c f s = Reverts e dirty \<longrightarrow>
      transact x c f s = (Reverted e, s) \<and>
      (dirty \<noteq> s \<longrightarrow>
         (\<exists>d'. f = SubmitAttestation d' \<and> e = BatchNotActive \<and>
             dirty = s\<lparr>lastSubmissionTime :=
                         (lastSubmissionTime s)(msg_sender c := block_timestamp c)\<rparr>) \<or>
         (f = CloseCurrentBatch \<and> e = Panic))) \<and>
   (isProvider s (msg_sender c) \<and> \<not> paused s \<and> cooldownElapsed c s \<and>
    FHE_isInitialized x d \<and> \<not> active (batches s (currentBatchId s)) \<longrightarrow>
      exec x c (SubmitAttestation d) s = Reverts BatchNotActive
        (s\<lparr>lastSubmissionTime :=
             (lastSubmissionTime s)(msg_sender c := block_timestamp c)\<rparr>) \<and>
      transact x c (SubmitAttestation d) s = (Reverted BatchNotActive, s)) \<and>
   (fst (transact x c (SubmitAttestation d) s) = Success \<longleftrightarrow>
      isProvider s (msg_sender c) \<and> \<not> paused s \<and> cooldownElapsed c s \<and>
      FHE_isInitialized x d \<and> active (batches s (currentBatchId s))) \<and>
   lastSubmissionTime (snd (transact x c (SubmitAttestation d) s)) =
     (if fst (transact x c (SubmitAttestation d) s) = Success
      then (lastSubmissionTime s)(msg_sender c := block_timestamp c)
      else lastSubmissionTime s)"
proof (intro conjI impI)
  show tc: "transact x c f s = commit s (exec x c f s)"
    by (rule transact_commit)
  show "snd (transact x c f s) = s" if "fst (transact x c f s) = Reverted e"
    using that by (simp add: transact_commit commit_def split: halt.splits)
  show "transact x c f s = (Reverted e, s)" if "exec x c f s = Reverts e dirty"
    using that by (simp add: transact_commit commit_def)
  show "(\<exists>d'. f = SubmitAttestation d' \<and> e = BatchNotActive \<and>
             dirty = s\<lparr>lastSubmissionTime :=
                         (lastSubmissionTime s)(msg_sender c := block_timestamp c)\<rparr>) \<or>
         (f = CloseCurrentBatch \<and> e = Panic)"
    if "exec x c f s = Reverts e dirty" and "dirty \<noteq> s"
    using that by (rule exec_dirty)
  have succ: "fst (transact x c (SubmitAttestation d) s) = Success \<longleftrightarrow>
      isProvider s (msg_sender c) \<and> \<not> paused s \<and> cooldownElapsed c s \<and>
      FHE_isInitialized x d \<and> active (batches s (currentBatchId s))"
  proof
    assume "fst (transact x c (SubmitAttestation d) s) = Success"
    then obtain s' where "submitAttestation x c d s = Inr s'"
      by (auto simp: transact_def split: sum.splits)
    then show "isProvider s (msg_sender c) \<and> \<not> paused s \<and> cooldownElapsed c s \<and>
      FHE_isInitialized x d \<and> active (batches s (currentBatchId s))"
      by (rule submitAttestation_Inr)
  next
    assume "isProvider s (msg_sender c) \<and> \<not> paused s \<and> cooldownElapsed c s \<and>
      FHE_isInitialized x d \<and> active (batches s (currentBatchId s))"
    then show "fst (transact x c (SubmitAttestation d) s) = Success"
      by (simp add: transact_def submitAttestation_pass)
  qed
  from succ show "fst (transact x c (SubmitAttestation d) s) = Success \<longleftrightarrow>
      isProvider s (msg_sender c) \<and> \<not> paused s \<and> cooldownElapsed c s \<and>
      FHE_isInitialized x d \<and> active (batches s (currentBatchId s))" .
  show "lastSubmissionTime (snd (transact x c (SubmitAttestation d) s)) =
     (if fst (transact x c (SubmitAttestation d) s) = Success
      then (lastSubmissionTime s)(msg_sender c := block_timestamp c)
      else lastSubmissionTime s)"
  proof (cases "fst (transact x c (SubmitAttestation d) s) = Success")
    case True
    with succ show ?thesis by (simp add: transact_def submitAttestation_pass)
  next
    case False
    then show ?thesis by (auto simp: transact_def split: sum.splits)
  qed
next
  assume g: "isProvider s (msg_sender c) \<and> \<not> paused s \<and> cooldownElapsed c s \<and>
    FHE_isInitialized x d \<and> \<not> active (batches s (currentBatchId s))"
  then show ex: "exec x c (SubmitAttestation d) s = Reverts BatchNotActive
        (s\<lparr>lastSubmissionTime :=
             (lastSubmissionTime s)(msg_sender c := block_timestamp c)\<rparr>)"
    by (simp add: submitAttestation_exec_BatchNotActive)
  then show "transact x c (SubmitAttestation d) s = (Reverted BatchNotActive, s)"
    by (simp add: transact_commit commit_def)
qed

theorem failed_call_rolls_back_witness:
  "isProvider inactiveStorage 1 \<and> \<not> paused inactiveStorage \<and>
   cooldownElapsed (at 1 2001 0) inactiveStorage \<and> FHE_isInitialized demoExtern 5 \<and>
   \<not> active (batches inactiveStorage (currentBatchId inactiveStorage)) \<and>
   exec demoExtern (at 1 2001 0) (SubmitAttestation 5) inactiveStorage =
     Reverts BatchNotActive
       (inactiveStorage\<lparr>lastSubmissionTime := (lastSubmissionTime inactiveStorage)(1 := 2001)\<rparr>) \<and>
   lastSubmissionTime
     (inactiveStorage\<lparr>lastSubmissionTime := (lastSubmissionTime inactiveStorage)(1 := 2001)\<rparr>) 1 \<noteq>
     lastSubmissionTime inactiveStorage 1 \<and>
   transact demoExtern (at 1 2001 0) (SubmitAttestation 5) inactiveStorage =
     (Reverted BatchNotActive, inactiveStorage) \<and>
   lastSubmissionTime
     (snd (transact demoExtern (at 1 2001 0) (SubmitAttestation 5) inactiveStorage)) =
     lastSubmissionTime inactiveStorage \<and>
   fst (transact demoExtern (at 1 2001 0) (SubmitAttestation 5) deployedStorage) = Success \<and>
   lastSubmissionTime
     (snd (transact demoExtern (at 1 2001 0) (SubmitAttestation 5) deployedStorage)) 1 = 2001 \<and>
   fst (transact demoExtern (at 1 2010 0) (SubmitAttestation 5)
          (snd (transact demoExtern (at 1 2001 0) (SubmitAttestation 5) deployedStorage))) =
     Reverted CooldownActive \<and>
   snd (transact demoExtern (at 1 2010 0) (SubmitAttestation 5)
          (snd (transact demoExtern (at 1 2001 0) (SubmitAttestation 5) deployedStorage))) =
     snd (transact demoExtern (at 1 2001 0) (SubmitAttestation 5) deployedStorage)"
proof -
  let ?c = "at 1 2001 0"
  let ?s1 = "snd (transact demoExtern ?c (SubmitAttestation 5) deployedStorage)"
  let ?dirty = "inactiveStorage\<lparr>lastSubmissionTime :=
      (lastSubmissionTime inactiveStorage)(1 := 2001)\<rparr>"
  have d: "deployedStorage = \<lparr>owner = 1, isProvider = (\<lambda>_. False)(1 := True), paused = False,
      cooldownSeconds = 60, lastSubmissionTime = (\<lambda>_. 0),
      lastDecryptionRequestTime = (\<lambda>_. 0), currentBatchId = 1,
      batches = (\<lambda>_. zeroBatch)(1 := \<lparr>idB = 1, active = True,
         createdAt = 1000, closedAt = 0\<rparr>),
      decryptionContexts = (\<lambda>_. zeroContext),
      events = [ProviderAdded 1, BatchOpened 1 1000]\<rparr>"
    by (simp add: deployedStorage_def constructor_result at_def)
  have ms: "msg_sender ?c = 1" "block_timestamp ?c = 2001" by (simp_all add: at_def)
  have f1: "isProvider inactiveStorage 1" and f2: "\<not> paused inactiveStorage"
    and f3: "cooldownElapsed ?c inactiveStorage" and f4: "FHE_isInitialized demoExtern 5"
    and f5: "\<not> active (batches inactiveStorage (currentBatchId inactiveStorage))"
    by (simp_all add: inactiveStorage_def d at_def cooldownElapsed_def demoExtern_def)
  have h1: "isProvider deployedStorage 1" and h2: "\<not> paused deployedStorage"
    and h3: "cooldownElapsed ?c deployedStorage"
    and h5: "active (batches deployedStorage (currentBatchId deployedStorage))"
    by (simp_all add: d at_def cooldownElapsed_def)
  have f7: "lastSubmissionTime ?dirty 1 \<noteq> lastSubmissionTime inactiveStorage 1"
    by (simp add: inactiveStorage_def d)
  note w1 = failed_call_rolls_back [of demoExtern ?c "SubmitAttestation 5" inactiveStorage
      BatchNotActive inactiveStorage 5, unfolded ms]
  note w2 = failed_call_rolls_back [of demoExtern ?c "SubmitAttestation 5" deployedStorage
      BatchNotActive deployedStorage 5, unfolded ms]
  have f6: "exec demoExtern ?c (SubmitAttestation 5) inactiveStorage =
      Reverts BatchNotActive ?dirty"
    using w1 f1 f2 f3 f4 f5 by blast
  have f8: "transact demoExtern ?c (SubmitAttestation 5) inactiveStorage =
      (Reverted BatchNotActive, inactiveStorage)"
    using w1 f1 f2 f3 f4 f5 by blast
  have f9: "lastSubmissionTime
      (snd (transact demoExtern ?c (SubmitAttestation 5) inactiveStorage)) =
      lastSubmissionTime inactiveStorage"
    by (simp only: f8 snd_conv)
  have f10: "fst (transact demoExtern ?c (SubmitAttestation 5) deployedStorage) = Success"
    using w2 h1 h2 h3 f4 h5 by blast
  have "lastSubmissionTime ?s1 =
      (if fst (transact demoExtern ?c (SubmitAttestation 5) deployedStorage) = Success
       then (lastSubmissionTime deployedStorage)(1 := 2001)
       else lastSubmissionTime deployedStorage)"
    using w2 by blast
  then have "lastSubmissionTime ?s1 = (lastSubmissionTime deployedStorage)(1 := 2001)"
    by (simp only: f10 simp_thms if_True)
  then have f11: "lastSubmissionTime ?s1 1 = 2001"
    by simp
  have f12: "fst (transact demoExtern (at 1 2010 0) (SubmitAttestation 5) ?s1) =
     Reverted CooldownActive"
    by (simp add: demo_defs model_defs Let_def)
  have f13: "snd (transact demoExtern (at 1 2010 0) (SubmitAttestation 5) ?s1) = ?s1"
    using failed_call_rolls_back [of demoExtern "at 1 2010 0" "SubmitAttestation 5" ?s1
        CooldownActive ?s1 5] f12 by blast
  show ?thesis
    by (intro conjI) (fact f1 f2 f3 f4 f5 f6 f7 f8 f9 f10 f11 f12 f13)+
qed

section \<open>Pause gate\<close>

text \<open>
  Against claim C4 as stated: after the owner pauses the freshly deployed contract, the
  owner's \<open>closeCurrentBatch\<close> still succeeds.
\<close>

theorem pause_gate_counterexample:
  "paused (snd (transact demoExtern (at 1 2000 0) Pause deployedStorage)) \<and>
   fst (transact demoExtern (at 1 3000 0) CloseCurrentBatch
         (snd (transact demoExtern (at 1 2000 0) Pause deployedStorage))) = Success"
  by (simp add: demo_defs model_defs Let_def)

text \<open>
  Claim C4, amended. While the pause flag is set, \<open>submitAttestation\<close> called by a
  provider and \<open>requestBatchValidation\<close> called by the owner fail with \<open>PausedError\<close>
  and change no storage (the authorisation modifier runs first, so another caller gets
  \<open>NotProvider\<close> or \<open>NotOwner\<close>). \<open>setCooldownSeconds\<close>, \<open>closeCurrentBatch\<close> and
  \<open>myCallback\<close> carry no pause modifier and never fail with \<open>PausedError\<close>.
\<close>

theorem pause_gate:
  assumes "paused s"
  shows "(isProvider s (msg_sender c) \<longrightarrow>
            transact x c (SubmitAttestation d) s = (Reverted PausedError, s)) \<and>
         (msg_sender c = owner s \<longrightarrow>
            transact x c (RequestBatchValidation b) s = (Reverted PausedError, s)) \<and>
         fst (transact x c (SetCooldownSeconds n) s) \<noteq> Reverted PausedError \<and>
         fst (transact x c CloseCurrentBatch s) \<noteq> Reverted PausedError \<and>
         fst (transact x c (MyCallback r ct pf) s) \<noteq> Reverted PausedError"
proof (intro conjI impI)
  show "fst (transact x c CloseCurrentBatch s) \<noteq> Reverted PausedError"
    by (auto simp: transact_def closeCurrentBatch_def openNewBatch_def onlyOwner_def
        checked_add_def Let_def split: sum.splits if_splits)
  show "fst (transact x c (MyCallback r ct pf) s) \<noteq> Reverted PausedError"
    by (auto simp: transact_def myCallback_def Let_def split: sum.splits if_splits)
  show "fst (transact x c (SetCooldownSeconds n) s) \<noteq> Reverted PausedError"
    by (auto simp: transact_def setCooldownSeconds_def onlyOwner_def Let_def
        split: sum.splits if_splits)
qed (use assms in \<open>simp_all add: transact_def submitAttestation_def
       requestBatchValidation_def onlyOwner_def onlyProvider_def whenNotPaused_def\<close>)

theorem pause_gate_witness:
  "paused (snd (transact demoExtern (at 1 2000 0) Pause deployedStorage)) \<and>
   isProvider (snd (transact demoExtern (at 1 2000 0) Pause deployedStorage)) 1 \<and>
   owner (snd (transact demoExtern (at 1 2000 0) Pause deployedStorage)) = 1 \<and>
   transact demoExtern (at 1 3000 0) (SubmitAttestation 5)
     (snd (transact demoExtern (at 1 2000 0) Pause deployedStorage)) =
     (Reverted PausedError, snd (transact demoExtern (at 1 2000 0) Pause deployedStorage)) \<and>
   transact demoExtern (at 1 3000 0) (RequestBatchValidation 1)
     (snd (transact demoExtern (at 1 2000 0) Pause deployedStorage)) =
     (Reverted PausedError, snd (transact demoExtern (at 1 2000 0) Pause deployedStorage))"
proof -
  let ?s = "snd (transact demoExtern (at 1 2000 0) Pause deployedStorage)"
  have p: "paused ?s" and q: "isProvider ?s 1" and o: "owner ?s = 1"
    by (simp_all add: demo_defs model_defs Let_def)
  from pause_gate [OF p, of "at 1 3000 0" demoExtern 5 1] p q o
  show ?thesis by (simp add: at_def)
qed

section \<open>The batch ledger\<close>

lemma openedBatchIds_append:
  "openedBatchIds (es @ fs) = openedBatchIds es @ openedBatchIds fs"
  by (induction es) (auto split: event.splits)

lemma le_succ_word:
  fixes a :: uint256
  assumes "unat (a + 1) = Suc (unat a)"
  shows "i \<le> a + 1 \<longleftrightarrow> i \<le> a \<or> i = a + 1"
  using assms by (auto simp: word_le_nat_alt word_unat_eq_iff)

lemma openNewBatch_invariant:
  assumes "openNewBatch c s = Inr s'"
    and "\<forall>i. \<not> active (batches s i)"
    and "idsInOrder s"
  shows "batchInvariant s'"
proof -
  obtain n where n: "checked_add (currentBatchId s) 1 = Inr n"
    using assms(1) by (auto simp: openNewBatch_def split: sum.splits)
  then have n1: "n = currentBatchId s + 1" and un: "unat n = Suc (unat (currentBatchId s))"
    using checked_add_one by blast+
  have s': "s' = emit (BatchOpened n (block_timestamp c))
      (s\<lparr>currentBatchId := n, batches := (batches s)(n :=
          \<lparr>idB = n, active = True, createdAt = block_timestamp c, closedAt = 0\<rparr>)\<rparr>)"
    using assms(1) n by (simp add: openNewBatch_def Let_def)
  have nz: "n \<noteq> 0" using un by (metis Zero_not_Suc unat_0)
  have le: "\<And>i. i \<le> n \<longleftrightarrow> i \<le> currentBatchId s \<or> i = n"
    using le_succ_word[of "currentBatchId s"] un n1 by simp
  have w: "word_of_nat (Suc (unat (currentBatchId s))) = n"
    using n1 by simp
  show ?thesis
    using assms(2,3) nz le w
    by (auto simp: batchInvariant_def idsInOrder_def s' emit_def un openedBatchIds_append)
qed

lemma ledger_frame:
  assumes "dispatch x c f s = Inr s'" and "f \<noteq> CloseCurrentBatch"
  shows "currentBatchId s' = currentBatchId s \<and> batches s' = batches s \<and>
         openedBatchIds (events s') = openedBatchIds (events s)"
proof (cases f)
  case (SubmitAttestation d)
  with assms(1) show ?thesis
    by (auto simp: submitAttestation_def modifier_defs emit_def Let_def openedBatchIds_append
        split: if_splits sum.splits)
next
  case (RequestBatchValidation b)
  with assms(1) show ?thesis
    by (auto simp: requestBatchValidation_def modifier_defs emit_def Let_def
        openedBatchIds_append split: if_splits sum.splits)
next
  case (MyCallback r ct pf)
  with assms(1) show ?thesis
    by (auto simp: myCallback_def emit_def Let_def openedBatchIds_append split: if_splits)
qed (use assms in \<open>auto simp: transferOwnership_def addProvider_def removeProvider_def
      pause_def unpause_def setCooldownSeconds_def modifier_defs emit_def Let_def
      openedBatchIds_append split: if_splits\<close>)

lemma closeCurrentBatch_unfold:
  assumes "closeCurrentBatch c s = Inr s'"
  shows "msg_sender c = owner s \<and> active (batches s (currentBatchId s)) \<and>
         openNewBatch c (emit (BatchClosed (currentBatchId s) (block_timestamp c))
           (s\<lparr>batches := (batches s)(currentBatchId s :=
              (batches s (currentBatchId s))\<lparr>active := False,
                 closedAt := block_timestamp c\<rparr>)\<rparr>)) = Inr s'"
  using assms
  by (auto simp: closeCurrentBatch_def onlyOwner_def Let_def emit_def split: if_splits)

lemma closeCurrentBatch_invariant:
  assumes "closeCurrentBatch c s = Inr s'" and "batchInvariant s"
  shows "batchInvariant s'"
proof -
  define s3 where "s3 = emit (BatchClosed (currentBatchId s) (block_timestamp c))
     (s\<lparr>batches := (batches s)(currentBatchId s :=
         (batches s (currentBatchId s))\<lparr>active := False, closedAt := block_timestamp c\<rparr>)\<rparr>)"
  have open': "openNewBatch c s3 = Inr s'"
    using closeCurrentBatch_unfold [OF assms(1)] by (simp add: s3_def)
  have "\<forall>i. \<not> active (batches s3 i)"
    using assms(2) by (simp add: batchInvariant_def s3_def emit_def)
  moreover have "idsInOrder s3"
    using assms(2)
    by (simp add: batchInvariant_def idsInOrder_def s3_def emit_def openedBatchIds_append)
  ultimately show ?thesis
    using open' by (blast intro: openNewBatch_invariant)
qed

lemma dispatch_invariant:
  assumes "dispatch x c f s = Inr s'" and "batchInvariant s"
  shows "batchInvariant s'"
proof (cases "f = CloseCurrentBatch")
  case True
  with assms show ?thesis by (simp add: closeCurrentBatch_invariant)
next
  case False
  from ledger_frame[OF assms(1) False] assms(2) show ?thesis
    by (simp add: batchInvariant_def idsInOrder_def)
qed

lemma transact_invariant:
  "batchInvariant s \<Longrightarrow> batchInvariant (snd (transact x c f s))"
  by (auto simp: transact_def split: sum.splits intro: dispatch_invariant)

lemma constructor_invariant:
  assumes "constructor c = Inr s"
  shows "batchInvariant s"
proof -
  let ?s4 = "zeroStorage\<lparr>owner := msg_sender c,
      isProvider := (isProvider zeroStorage)(msg_sender c := True),
      events := [ProviderAdded (msg_sender c)], cooldownSeconds := 60\<rparr>"
  have "openNewBatch c ?s4 = Inr s"
    using assms by (simp add: constructor_def Let_def emit_def zeroStorage_def)
  moreover have "\<forall>i. \<not> active (batches ?s4 i)"
    by (simp add: zeroStorage_def zeroBatch_def)
  moreover have "idsInOrder ?s4"
    by (simp add: idsInOrder_def zeroStorage_def zeroBatch_def)
  ultimately show ?thesis by (rule openNewBatch_invariant)
qed

lemma reachable_invariant: "reachable x s \<Longrightarrow> batchInvariant s"
  by (induction rule: reachable.induct)
     (auto intro: constructor_invariant transact_invariant)

text \<open>
  Claim C5. In every storage reachable from the constructor by any sequence of calls
  (failed ones included), exactly one batch is active and it is the current batch, so no
  reachable storage has zero active batches; the ids announced by \<open>BatchOpened\<close> are
  1, 2, ..., \<open>currentBatchId\<close> in this order, none twice; and every call, in particular
  the close-then-open of \<open>closeCurrentBatch\<close>, leads to a storage with the same property.
\<close>

theorem batch_ledger_invariant:
  assumes "reachable x s"
  shows "(\<exists>!i. active (batches s i)) \<and> active (batches s (currentBatchId s)) \<and>
         openedBatchIds (events s) = map word_of_nat [1..<Suc (unat (currentBatchId s))] \<and>
         distinct (openedBatchIds (events s)) \<and>
         batchInvariant s \<and> batchInvariant (snd (transact x c f s))"
proof -
  have inv: "batchInvariant s" using assms by (rule reachable_invariant)
  have ids: "openedBatchIds (events s) = map word_of_nat [1..<Suc (unat (currentBatchId s))]"
    using inv by (simp add: batchInvariant_def idsInOrder_def)
  have inj: "inj_on (word_of_nat :: nat \<Rightarrow> uint256)
         (set [1..<Suc (unat (currentBatchId s))])"
  proof (rule inj_onI)
    fix a b :: nat
    assume a: "a \<in> set [1..<Suc (unat (currentBatchId s))]"
      and b: "b \<in> set [1..<Suc (unat (currentBatchId s))]"
      and eq: "(word_of_nat a :: uint256) = word_of_nat b"
    have bound: "unat (currentBatchId s) < 2 ^ LENGTH(256)"
      by (rule unsigned_less)
    from a b have ab: "a \<le> unat (currentBatchId s)" "b \<le> unat (currentBatchId s)"
      by (simp_all only: set_upt atLeastLessThan_iff less_Suc_eq_le)
    have "a < 2 ^ LENGTH(256)" "b < 2 ^ LENGTH(256)"
      by (rule le_less_trans [OF ab(1) bound], rule le_less_trans [OF ab(2) bound])
    then have ua: "unat (word_of_nat a :: uint256) = a"
      and ub: "unat (word_of_nat b :: uint256) = b"
      by (simp_all only: unat_of_nat mod_less)
    from eq have "unat (word_of_nat a :: uint256) = unat (word_of_nat b :: uint256)"
      by (rule arg_cong)
    then show "a = b" unfolding ua ub .
  qed
  have "distinct (map word_of_nat [1..<Suc (unat (currentBatchId s))] :: uint256 list)"
    by (rule iffD2 [OF distinct_map]) (rule conjI [OF distinct_upt inj])
  then have "distinct (openedBatchIds (events s))"
    by (simp only: ids)
  moreover have "\<exists>!i. active (batches s i)"
    using inv by (auto simp: batchInvariant_def)
  moreover have "active (batches s (currentBatchId s))"
    using inv by (simp add: batchInvariant_def)
  ultimately show ?thesis
    using inv ids transact_invariant by blast
qed

theorem batch_ledger_invariant_witness:
  "reachable demoExtern (snd (transact demoExtern (at 1 2000 0) CloseCurrentBatch deployedStorage)) \<and>
   currentBatchId (snd (transact demoExtern (at 1 2000 0) CloseCurrentBatch deployedStorage)) = 2 \<and>
   active (batches (snd (transact demoExtern (at 1 2000 0) CloseCurrentBatch deployedStorage)) 2) \<and>
   openedBatchIds (events
     (snd (transact demoExtern (at 1 2000 0) CloseCurrentBatch deployedStorage))) = [1, 2] \<and>
   batchInvariant (snd (transact demoExtern (at 1 2000 0) CloseCurrentBatch deployedStorage))"
proof -
  let ?s = "snd (transact demoExtern (at 1 2000 0) CloseCurrentBatch deployedStorage)"
  have "constructor (at 1 1000 0) = Inr deployedStorage"
    by (simp add: deployedStorage_def constructor_result)
  then have r: "reachable demoExtern ?s"
    by (intro reachable.called reachable.deployed)
  have c: "currentBatchId ?s = 2"
    by (simp add: demo_defs model_defs Let_def)
  have e: "openedBatchIds (events ?s) = [1, 2]"
    by (simp add: demo_defs model_defs Let_def)
  from batch_ledger_invariant [OF r] r c e show ?thesis by simp
qed

section \<open>Closing a batch, then submitting\<close>

lemma closeCurrentBatch_result:
  assumes "msg_sender c = owner s"
    and "idB (batches s (currentBatchId s)) \<noteq> 0"
    and "active (batches s (currentBatchId s))"
    and "unat (currentBatchId s) + 1 < 2 ^ 256"
  shows "closeCurrentBatch c s = Inr
     (s\<lparr>currentBatchId := currentBatchId s + 1,
        batches := (batches s)
          (currentBatchId s := (batches s (currentBatchId s))
              \<lparr>active := False, closedAt := block_timestamp c\<rparr>,
           currentBatchId s + 1 := \<lparr>idB = currentBatchId s + 1, active = True,
              createdAt = block_timestamp c, closedAt = 0\<rparr>),
        events := events s @ [BatchClosed (currentBatchId s) (block_timestamp c),
                              BatchOpened (currentBatchId s + 1) (block_timestamp c)]\<rparr>)"
  using assms
  by (simp add: closeCurrentBatch_def onlyOwner_def openNewBatch_def checked_add_def
      emit_def Let_def)

lemma succ_neq_word: "unat (a :: uint256) + 1 < 2 ^ 256 \<Longrightarrow> a + 1 \<noteq> a"
  by simp

text \<open>
  Claim C6. Called by the owner while the current batch exists and is active,
  \<open>closeCurrentBatch\<close> succeeds (short of the id counter overflowing) and in one step
  marks that batch inactive with \<open>closedAt = now\<close> and creates a new active batch with
  id = previous + 1 and \<open>createdAt = now\<close>, which is the current batch from then on. A
  submit right after the close that passes its gates is recorded against the new batch
  id, which differs from the closed one. Called by the owner when the current batch
  exists but is not active, \<open>closeCurrentBatch\<close> fails with \<open>BatchNotActive\<close>.
\<close>

theorem closeCurrentBatch_closes_and_opens:
  assumes "msg_sender c = owner s" and "idB (batches s (currentBatchId s)) \<noteq> 0"
  shows "(active (batches s (currentBatchId s)) \<and> unat (currentBatchId s) + 1 < 2 ^ 256 \<longrightarrow>
           (\<exists>s'. closeCurrentBatch c s = Inr s' \<and>
              currentBatchId s' = currentBatchId s + 1 \<and>
              currentBatchId s' \<noteq> currentBatchId s \<and>
              batches s' (currentBatchId s) = (batches s (currentBatchId s))
                 \<lparr>active := False, closedAt := block_timestamp c\<rparr> \<and>
              batches s' (currentBatchId s + 1) = \<lparr>idB = currentBatchId s + 1,
                 active = True, createdAt = block_timestamp c, closedAt = 0\<rparr> \<and>
              events s' = events s @ [BatchClosed (currentBatchId s) (block_timestamp c),
                 BatchOpened (currentBatchId s + 1) (block_timestamp c)] \<and>
              (\<forall>c' d. isProvider s' (msg_sender c') \<and> \<not> paused s' \<and>
                   cooldownElapsed c' s' \<and> FHE_isInitialized x d \<longrightarrow>
                 (\<exists>s''. submitAttestation x c' d s' = Inr s'' \<and>
                    events s'' = events s' @
                      [AttestationSubmitted (msg_sender c') (currentBatchId s + 1) d])))) \<and>
         (\<not> active (batches s (currentBatchId s)) \<longrightarrow>
            closeCurrentBatch c s = Inl BatchNotActive)"
proof (intro conjI impI)
  assume a: "active (batches s (currentBatchId s)) \<and> unat (currentBatchId s) + 1 < 2 ^ 256"
  then have neq: "currentBatchId s + 1 \<noteq> currentBatchId s"
    by (simp add: succ_neq_word)
  let ?s' = "s\<lparr>currentBatchId := currentBatchId s + 1,
        batches := (batches s)
          (currentBatchId s := (batches s (currentBatchId s))
              \<lparr>active := False, closedAt := block_timestamp c\<rparr>,
           currentBatchId s + 1 := \<lparr>idB = currentBatchId s + 1, active = True,
              createdAt = block_timestamp c, closedAt = 0\<rparr>),
        events := events s @ [BatchClosed (currentBatchId s) (block_timestamp c),
                              BatchOpened (currentBatchId s + 1) (block_timestamp c)]\<rparr>"
  have res: "closeCurrentBatch c s = Inr ?s'"
    using assms a by (simp add: closeCurrentBatch_result)
  have sub: "\<forall>c' d. isProvider ?s' (msg_sender c') \<and> \<not> paused ?s' \<and>
        cooldownElapsed c' ?s' \<and> FHE_isInitialized x d \<longrightarrow>
      (\<exists>s''. submitAttestation x c' d ?s' = Inr s'' \<and>
         events s'' = events ?s' @
           [AttestationSubmitted (msg_sender c') (currentBatchId s + 1) d])"
  proof (intro allI impI)
    fix c' d
    assume g: "isProvider ?s' (msg_sender c') \<and> \<not> paused ?s' \<and>
        cooldownElapsed c' ?s' \<and> FHE_isInitialized x d"
    have "active (batches ?s' (currentBatchId ?s'))" by simp
    with g show "\<exists>s''. submitAttestation x c' d ?s' = Inr s'' \<and>
         events s'' = events ?s' @
           [AttestationSubmitted (msg_sender c') (currentBatchId s + 1) d]"
      by (simp add: submitAttestation_pass)
  qed
  show "\<exists>s'. closeCurrentBatch c s = Inr s' \<and>
              currentBatchId s' = currentBatchId s + 1 \<and>
              currentBatchId s' \<noteq> currentBatchId s \<and>
              batches s' (currentBatchId s) = (batches s (currentBatchId s))
                 \<lparr>active := False, closedAt := block_timestamp c\<rparr> \<and>
              batches s' (currentBatchId s + 1) = \<lparr>idB = currentBatchId s + 1,
                 active = True, createdAt = block_timestamp c, closedAt = 0\<rparr> \<and>
              events s' = events s @ [BatchClosed (currentBatchId s) (block_timestamp c),
                 BatchOpened (currentBatchId s + 1) (block_timestamp c)] \<and>
              (\<forall>c' d. isProvider s' (msg_sender c') \<and> \<not> paused s' \<and>
                   cooldownElapsed c' s' \<and> FHE_isInitialized x d \<longrightarrow>
                 (\<exists>s''. submitAttestation x c' d s' = Inr s'' \<and>
                    events s'' = events s' @
                      [AttestationSubmitted (msg_sender c') (currentBatchId s + 1) d]))"
    apply (rule exI [of _ ?s'])
    apply (intro conjI)
          apply (rule res)
         apply simp
        apply (simp add: neq)
       apply (simp add: neq)
      apply simp
     apply simp
    apply (rule sub)
    done
next
  assume "\<not> active (batches s (currentBatchId s))"
  with assms show "closeCurrentBatch c s = Inl BatchNotActive"
    by (simp add: closeCurrentBatch_def onlyOwner_def Let_def)
qed


theorem closeCurrentBatch_closes_and_opens_witness:
  "owner deployedStorage = 1 \<and> idB (batches deployedStorage 1) \<noteq> 0 \<and>
   active (batches deployedStorage 1) \<and>
   currentBatchId (snd (transact demoExtern (at 1 2000 0) CloseCurrentBatch deployedStorage)) = 2 \<and>
   batches (snd (transact demoExtern (at 1 2000 0) CloseCurrentBatch deployedStorage)) 1 =
     \<lparr>idB = 1, active = False, createdAt = 1000, closedAt = 2000\<rparr> \<and>
   batches (snd (transact demoExtern (at 1 2000 0) CloseCurrentBatch deployedStorage)) 2 =
     \<lparr>idB = 2, active = True, createdAt = 2000, closedAt = 0\<rparr> \<and>
   cooldownElapsed (at 1 2001 0)
     (snd (transact demoExtern (at 1 2000 0) CloseCurrentBatch deployedStorage)) \<and>
   last (events (snd (transact demoExtern (at 1 2001 0) (SubmitAttestation 5)
     (snd (transact demoExtern (at 1 2000 0) CloseCurrentBatch deployedStorage))))) =
     AttestationSubmitted 1 2 5 \<and>
   closeCurrentBatch (at 1 2000 0)
     (deployedStorage\<lparr>batches := (batches deployedStorage)
        (1 := \<lparr>idB = 1, active = False, createdAt = 1000, closedAt = 1500\<rparr>)\<rparr>) =
     Inl BatchNotActive"
proof -
  let ?c = "at 1 2000 0"
  let ?s1 = "snd (transact demoExtern ?c CloseCurrentBatch deployedStorage)"
  let ?closed = "deployedStorage\<lparr>batches := (batches deployedStorage)
        (1 := \<lparr>idB = 1, active = False, createdAt = 1000, closedAt = 1500\<rparr>)\<rparr>"
  have d: "deployedStorage = \<lparr>owner = 1, isProvider = (\<lambda>_. False)(1 := True), paused = False,
      cooldownSeconds = 60, lastSubmissionTime = (\<lambda>_. 0),
      lastDecryptionRequestTime = (\<lambda>_. 0), currentBatchId = 1,
      batches = (\<lambda>_. zeroBatch)(1 := \<lparr>idB = 1, active = True,
         createdAt = 1000, closedAt = 0\<rparr>),
      decryptionContexts = (\<lambda>_. zeroContext),
      events = [ProviderAdded 1, BatchOpened 1 1000]\<rparr>"
    by (simp add: deployedStorage_def constructor_result at_def)
  have h: "msg_sender ?c = owner deployedStorage"
    "idB (batches deployedStorage (currentBatchId deployedStorage)) \<noteq> 0"
    "active (batches deployedStorage (currentBatchId deployedStorage))"
    "unat (currentBatchId deployedStorage) + 1 < 2 ^ 256"
    by (simp_all add: d at_def)
  have h': "msg_sender ?c = owner ?closed"
    "idB (batches ?closed (currentBatchId ?closed)) \<noteq> 0"
    "\<not> active (batches ?closed (currentBatchId ?closed))"
    by (simp_all add: d at_def)
  from closeCurrentBatch_closes_and_opens [OF h(1,2), of demoExtern] h(3,4)
  obtain s' where s': "closeCurrentBatch ?c deployedStorage = Inr s'"
    and cur: "currentBatchId s' = currentBatchId deployedStorage + 1"
    and b1: "batches s' (currentBatchId deployedStorage) =
       (batches deployedStorage (currentBatchId deployedStorage))
          \<lparr>active := False, closedAt := block_timestamp ?c\<rparr>"
    and b2: "batches s' (currentBatchId deployedStorage + 1) =
       \<lparr>idB = currentBatchId deployedStorage + 1,
        active = True, createdAt = block_timestamp ?c, closedAt = 0\<rparr>"
    and sub: "\<forall>c' d. isProvider s' (msg_sender c') \<and> \<not> paused s' \<and>
        cooldownElapsed c' s' \<and> FHE_isInitialized demoExtern d \<longrightarrow>
      (\<exists>s''. submitAttestation demoExtern c' d s' = Inr s'' \<and>
         events s'' = events s' @
           [AttestationSubmitted (msg_sender c') (currentBatchId deployedStorage + 1) d])"
    by blast
  have eq: "?s1 = s'" using s' by (simp add: transact_def)
  have g: "isProvider ?s1 1" "\<not> paused ?s1" "cooldownElapsed (at 1 2001 0) ?s1"
    "FHE_isInitialized demoExtern 5"
    by (simp_all add: d model_defs demoExtern_def at_def cooldownElapsed_def Let_def)
  from sub [rule_format, of "at 1 2001 0" 5] g
  obtain s'' where s'': "submitAttestation demoExtern (at 1 2001 0) 5 s' = Inr s''"
    and ev: "events s'' = events s' @
      [AttestationSubmitted (msg_sender (at 1 2001 0)) (currentBatchId deployedStorage + 1) 5]"
    unfolding eq by (auto simp: at_def)
  have l: "last (events (snd (transact demoExtern (at 1 2001 0) (SubmitAttestation 5) ?s1)))
      = AttestationSubmitted 1 2 5"
    unfolding eq using s'' ev by (simp add: transact_def d at_def)
  from closeCurrentBatch_closes_and_opens [OF h'(1,2), of demoExtern] h'(3)
  have n: "closeCurrentBatch ?c ?closed = Inl BatchNotActive" by blast
  show ?thesis
    unfolding eq using cur b1 b2 g(3) l n unfolding eq
    by (simp add: d at_def)
qed

lemma openNewBatch_active:
  "openNewBatch c s = Inr s' \<Longrightarrow> active (batches s' (currentBatchId s'))"
  by (auto simp: openNewBatch_def emit_def Let_def split: sum.splits)

lemma closeCurrentBatch_active:
  "closeCurrentBatch c s = Inr s' \<Longrightarrow> active (batches s' (currentBatchId s'))"
  using closeCurrentBatch_unfold openNewBatch_active by blast

lemma closeCurrentBatch_next:
  assumes "closeCurrentBatch c s = Inr s'"
  shows "currentBatchId s' = currentBatchId s + 1 \<and>
         currentBatchId s' \<noteq> currentBatchId s \<and>
         batches s' (currentBatchId s') = \<lparr>idB = currentBatchId s + 1, active = True,
            createdAt = block_timestamp c, closedAt = 0\<rparr> \<and>
         \<not> active (batches s' (currentBatchId s))"
proof -
  let ?s3 = "emit (BatchClosed (currentBatchId s) (block_timestamp c))
     (s\<lparr>batches := (batches s)(currentBatchId s :=
         (batches s (currentBatchId s))\<lparr>active := False, closedAt := block_timestamp c\<rparr>)\<rparr>)"
  have o: "openNewBatch c ?s3 = Inr s'"
    using closeCurrentBatch_unfold [OF assms] by simp
  then obtain n where n: "checked_add (currentBatchId s) 1 = Inr n"
    by (auto simp: openNewBatch_def emit_def split: sum.splits)
  then have n1: "n = currentBatchId s + 1" and un: "unat n = Suc (unat (currentBatchId s))"
    using checked_add_one by blast+
  have neq: "n \<noteq> currentBatchId s"
    using un by auto
  have s': "s' = emit (BatchOpened n (block_timestamp c))
      (?s3\<lparr>currentBatchId := n, batches := (batches ?s3)(n :=
          \<lparr>idB = n, active = True, createdAt = block_timestamp c, closedAt = 0\<rparr>)\<rparr>)"
    using o n by (simp add: openNewBatch_def emit_def Let_def)
  show ?thesis
    using neq by (simp add: s' emit_def n1 [symmetric])
qed

lemma submitAttestation_BatchNotActive_iff:
  "submitAttestation x c d s = Inl BatchNotActive \<longleftrightarrow>
     isProvider s (msg_sender c) \<and> \<not> paused s \<and> cooldownElapsed c s \<and>
     FHE_isInitialized x d \<and> \<not> active (batches s (currentBatchId s))"
  by (auto simp: submitAttestation_def modifier_defs checked_add_def cooldownElapsed_def
      Let_def split: if_splits)

text \<open>
  Against claim C7 as stated: on the deployed contract the owner closes batch 1 and then
  submits an initialised ciphertext; both calls succeed.
\<close>

theorem submit_after_close_counterexample:
  "fst (transact demoExtern (at 1 2000 0) CloseCurrentBatch deployedStorage) = Success \<and>
   fst (transact demoExtern (at 1 2001 0) (SubmitAttestation 5)
          (snd (transact demoExtern (at 1 2000 0) CloseCurrentBatch deployedStorage))) =
     Success"
  by (simp add: demo_defs model_defs Let_def)

text \<open>
  Claim C7, amended. \<open>submitAttestation\<close> keeps its Active gate: on any storage it
  fails with \<open>BatchNotActive\<close> exactly when its other gates pass (provider, not paused,
  cooldown elapsed, ciphertext initialised) and the batch at \<open>currentBatchId\<close> is not
  active. A successful \<open>closeCurrentBatch\<close> leaves the closed batch inactive and makes
  the batch it opens, with id previous + 1 and active, the current one. So a submit
  right after the close does not fail with \<open>BatchNotActive\<close>: when its other gates pass
  it succeeds and is recorded against the newly opened batch, not the closed one.
\<close>

theorem submit_after_close:
  assumes "closeCurrentBatch c s = Inr s'"
  shows "(\<forall>t. submitAttestation x c' d t = Inl BatchNotActive \<longleftrightarrow>
            isProvider t (msg_sender c') \<and> \<not> paused t \<and> cooldownElapsed c' t \<and>
            FHE_isInitialized x d \<and> \<not> active (batches t (currentBatchId t))) \<and>
         currentBatchId s' = currentBatchId s + 1 \<and>
         currentBatchId s' \<noteq> currentBatchId s \<and>
         batches s' (currentBatchId s') = \<lparr>idB = currentBatchId s + 1, active = True,
            createdAt = block_timestamp c, closedAt = 0\<rparr> \<and>
         \<not> active (batches s' (currentBatchId s)) \<and>
         submitAttestation x c' d s' \<noteq> Inl BatchNotActive \<and>
         (isProvider s' (msg_sender c') \<and> \<not> paused s' \<and> cooldownElapsed c' s' \<and>
          FHE_isInitialized x d \<longrightarrow>
            submitAttestation x c' d s' = Inr
              (s'\<lparr>lastSubmissionTime :=
                    (lastSubmissionTime s')(msg_sender c' := block_timestamp c'),
                  events := events s' @
                    [AttestationSubmitted (msg_sender c') (currentBatchId s + 1) d]\<rparr>))"
proof -
  note nx = closeCurrentBatch_next [OF assms]
  have n1: "currentBatchId s' = currentBatchId s + 1"
    and n2: "currentBatchId s' \<noteq> currentBatchId s"
    and n3: "batches s' (currentBatchId s') = \<lparr>idB = currentBatchId s + 1, active = True,
            createdAt = block_timestamp c, closedAt = 0\<rparr>"
    and n4: "\<not> active (batches s' (currentBatchId s))"
    using nx by blast+
  have act: "active (batches s' (currentBatchId s'))"
    using assms by (rule closeCurrentBatch_active)
  have gate: "\<forall>t. submitAttestation x c' d t = Inl BatchNotActive \<longleftrightarrow>
            isProvider t (msg_sender c') \<and> \<not> paused t \<and> cooldownElapsed c' t \<and>
            FHE_isInitialized x d \<and> \<not> active (batches t (currentBatchId t))"
    by (intro allI) (rule submitAttestation_BatchNotActive_iff)
  have no: "submitAttestation x c' d s' \<noteq> Inl BatchNotActive"
    using act gate by blast
  have sub: "isProvider s' (msg_sender c') \<and> \<not> paused s' \<and> cooldownElapsed c' s' \<and>
          FHE_isInitialized x d \<longrightarrow>
            submitAttestation x c' d s' = Inr
              (s'\<lparr>lastSubmissionTime :=
                    (lastSubmissionTime s')(msg_sender c' := block_timestamp c'),
                  events := events s' @
                    [AttestationSubmitted (msg_sender c') (currentBatchId s + 1) d]\<rparr>)"
  proof
    assume "isProvider s' (msg_sender c') \<and> \<not> paused s' \<and> cooldownElapsed c' s' \<and>
          FHE_isInitialized x d"
    with act have "submitAttestation x c' d s' = Inr
       (s'\<lparr>lastSubmissionTime := (lastSubmissionTime s')(msg_sender c' := block_timestamp c'),
           events := events s' @
             [AttestationSubmitted (msg_sender c') (currentBatchId s') d]\<rparr>)"
      by (simp add: submitAttestation_pass)
    then show "submitAttestation x c' d s' = Inr
              (s'\<lparr>lastSubmissionTime :=
                    (lastSubmissionTime s')(msg_sender c' := block_timestamp c'),
                  events := events s' @
                    [AttestationSubmitted (msg_sender c') (currentBatchId s + 1) d]\<rparr>)"
      by (simp only: n1)
  qed
  show ?thesis
    by (intro conjI) (fact gate n1 n2 n3 n4 no sub)+
qed

theorem submit_after_close_witness:
  "closeCurrentBatch (at 1 2000 0) deployedStorage =
     Inr (snd (transact demoExtern (at 1 2000 0) CloseCurrentBatch deployedStorage)) \<and>
   currentBatchId deployedStorage = 1 \<and>
   currentBatchId
     (snd (transact demoExtern (at 1 2000 0) CloseCurrentBatch deployedStorage)) = 1 + 1 \<and>
   \<not> active (batches
     (snd (transact demoExtern (at 1 2000 0) CloseCurrentBatch deployedStorage)) 1) \<and>
   isProvider (snd (transact demoExtern (at 1 2000 0) CloseCurrentBatch deployedStorage)) 1 \<and>
   \<not> paused (snd (transact demoExtern (at 1 2000 0) CloseCurrentBatch deployedStorage)) \<and>
   cooldownElapsed (at 1 2001 0)
     (snd (transact demoExtern (at 1 2000 0) CloseCurrentBatch deployedStorage)) \<and>
   FHE_isInitialized demoExtern 5 \<and>
   submitAttestation demoExtern (at 1 2001 0) 5
     (snd (transact demoExtern (at 1 2000 0) CloseCurrentBatch deployedStorage)) \<noteq>
     Inl BatchNotActive \<and>
   last (events (projr (submitAttestation demoExtern (at 1 2001 0) 5
     (snd (transact demoExtern (at 1 2000 0) CloseCurrentBatch deployedStorage))))) =
     AttestationSubmitted 1 (1 + 1) 5 \<and>
   isProvider inactiveStorage 1 \<and> \<not> paused inactiveStorage \<and>
   cooldownElapsed (at 1 2001 0) inactiveStorage \<and>
   \<not> active (batches inactiveStorage (currentBatchId inactiveStorage)) \<and>
   submitAttestation demoExtern (at 1 2001 0) 5 inactiveStorage = Inl BatchNotActive"
proof -
  let ?c' = "at 1 2001 0"
  let ?s1 = "snd (transact demoExtern (at 1 2000 0) CloseCurrentBatch deployedStorage)"
  have d: "deployedStorage = \<lparr>owner = 1, isProvider = (\<lambda>_. False)(1 := True), paused = False,
      cooldownSeconds = 60, lastSubmissionTime = (\<lambda>_. 0),
      lastDecryptionRequestTime = (\<lambda>_. 0), currentBatchId = 1,
      batches = (\<lambda>_. zeroBatch)(1 := \<lparr>idB = 1, active = True,
         createdAt = 1000, closedAt = 0\<rparr>),
      decryptionContexts = (\<lambda>_. zeroContext),
      events = [ProviderAdded 1, BatchOpened 1 1000]\<rparr>"
    by (simp add: deployedStorage_def constructor_result at_def)
  have ms: "msg_sender ?c' = 1" by (simp add: at_def)
  have f1: "closeCurrentBatch (at 1 2000 0) deployedStorage = Inr ?s1"
    by (simp add: demo_defs model_defs Let_def)
  have f2: "currentBatchId deployedStorage = 1" by (simp add: d)
  have g1: "isProvider ?s1 1" and g2: "\<not> paused ?s1" and g3: "cooldownElapsed ?c' ?s1"
    and g4: "FHE_isInitialized demoExtern 5"
    by (simp_all add: demo_defs model_defs cooldownElapsed_def Let_def)
  have i1: "isProvider inactiveStorage 1" and i2: "\<not> paused inactiveStorage"
    and i3: "cooldownElapsed ?c' inactiveStorage"
    and i5: "\<not> active (batches inactiveStorage (currentBatchId inactiveStorage))"
    by (simp_all add: inactiveStorage_def d at_def cooldownElapsed_def)
  note w = submit_after_close [OF f1, of demoExtern ?c' 5, unfolded ms f2]
  have f3: "currentBatchId ?s1 = 1 + 1" using w by blast
  have f4: "\<not> active (batches ?s1 1)" using w by blast
  have f5: "submitAttestation demoExtern ?c' 5 ?s1 \<noteq> Inl BatchNotActive" using w by blast
  have "submitAttestation demoExtern ?c' 5 ?s1 = Inr
      (?s1\<lparr>lastSubmissionTime := (lastSubmissionTime ?s1)(1 := block_timestamp ?c'),
            events := events ?s1 @ [AttestationSubmitted 1 (1 + 1) 5]\<rparr>)"
    using w g1 g2 g3 g4 by blast
  then have f6: "last (events (projr (submitAttestation demoExtern ?c' 5 ?s1))) =
      AttestationSubmitted 1 (1 + 1) 5"
    by simp
  have f7: "submitAttestation demoExtern ?c' 5 inactiveStorage = Inl BatchNotActive"
    using w i1 i2 i3 g4 i5 by blast
  show ?thesis
    by (intro conjI) (fact f1 f2 f3 f4 f5 f6 f7 g1 g2 g3 g4 i1 i2 i3 i5)+
qed

section \<open>Which batches can be validated\<close>

text \<open>
  Claim C8. \<open>requestBatchValidation(batchId)\<close> fails with \<open>InvalidBatch\<close> only if
  \<open>batchId\<close> is 0, or is at least \<open>currentBatchId\<close> (the open batch included), or the
  batch has \<open>closedAt\<close> unset (zero). When the modifiers let the call through (caller is
  the owner, not paused, cooldown elapsed) it fails with \<open>InvalidBatch\<close> in each of these
  cases, and in every other case the precondition passes and the call succeeds.
\<close>

theorem requestBatchValidation_InvalidBatch:
  "(requestBatchValidation x c b s = Inl InvalidBatch \<longrightarrow>
      b = 0 \<or> currentBatchId s \<le> b \<or> closedAt (batches s b) = 0) \<and>
   (msg_sender c = owner s \<and> \<not> paused s \<and> cooldownElapsed c s \<longrightarrow>
      (requestBatchValidation x c b s = Inl InvalidBatch \<longleftrightarrow>
         b = 0 \<or> currentBatchId s \<le> b \<or> closedAt (batches s b) = 0) \<and>
      (\<not> (b = 0 \<or> currentBatchId s \<le> b \<or> closedAt (batches s b) = 0) \<longrightarrow>
         (\<exists>s'. requestBatchValidation x c b s = Inr s')))"
proof (intro conjI impI)
  assume "requestBatchValidation x c b s = Inl InvalidBatch"
  then show "b = 0 \<or> currentBatchId s \<le> b \<or> closedAt (batches s b) = 0"
    by (auto simp: requestBatchValidation_def onlyOwner_def whenNotPaused_def
        respectCooldown_def checked_add_def Let_def split: if_splits)
next
  assume g: "msg_sender c = owner s \<and> \<not> paused s \<and> cooldownElapsed c s"
  then show "requestBatchValidation x c b s = Inl InvalidBatch \<longleftrightarrow>
         b = 0 \<or> currentBatchId s \<le> b \<or> closedAt (batches s b) = 0"
    by (auto simp: requestBatchValidation_def onlyOwner_def whenNotPaused_def
        respectCooldown_pass Let_def)
next
  assume g: "msg_sender c = owner s \<and> \<not> paused s \<and> cooldownElapsed c s"
    and "\<not> (b = 0 \<or> currentBatchId s \<le> b \<or> closedAt (batches s b) = 0)"
  then show "\<exists>s'. requestBatchValidation x c b s = Inr s'"
    by (auto simp: requestBatchValidation_def onlyOwner_def whenNotPaused_def
        respectCooldown_pass Let_def)
qed

theorem requestBatchValidation_InvalidBatch_witness:
  "owner (snd (transact demoExtern (at 1 2000 0) CloseCurrentBatch deployedStorage)) = 1 \<and>
   \<not> paused (snd (transact demoExtern (at 1 2000 0) CloseCurrentBatch deployedStorage)) \<and>
   cooldownElapsed (at 1 3000 7)
     (snd (transact demoExtern (at 1 2000 0) CloseCurrentBatch deployedStorage)) \<and>
   currentBatchId (snd (transact demoExtern (at 1 2000 0) CloseCurrentBatch deployedStorage)) = 2 \<and>
   requestBatchValidation demoExtern (at 1 3000 7) 0
     (snd (transact demoExtern (at 1 2000 0) CloseCurrentBatch deployedStorage)) =
     Inl InvalidBatch \<and>
   requestBatchValidation demoExtern (at 1 3000 7) 2
     (snd (transact demoExtern (at 1 2000 0) CloseCurrentBatch deployedStorage)) =
     Inl InvalidBatch \<and>
   requestBatchValidation demoExtern (at 1 3000 7) 3
     (snd (transact demoExtern (at 1 2000 0) CloseCurrentBatch deployedStorage)) =
     Inl InvalidBatch \<and>
   (\<exists>s'. requestBatchValidation demoExtern (at 1 3000 7) 1
      (snd (transact demoExtern (at 1 2000 0) CloseCurrentBatch deployedStorage)) = Inr s')"
proof -
  let ?s1 = "snd (transact demoExtern (at 1 2000 0) CloseCurrentBatch deployedStorage)"
  let ?c = "at 1 3000 7"
  have g: "msg_sender ?c = owner ?s1 \<and> \<not> paused ?s1 \<and> cooldownElapsed ?c ?s1"
    by (simp add: demo_defs model_defs cooldownElapsed_def Let_def)
  have cur: "currentBatchId ?s1 = 2" and cl: "closedAt (batches ?s1 1) = 2000"
    by (simp_all add: demo_defs model_defs Let_def)
  have le: "currentBatchId ?s1 \<le> 2" "currentBatchId ?s1 \<le> 3" "\<not> currentBatchId ?s1 \<le> 1"
    by (simp_all add: cur word_le_nat_alt)
  have i0: "requestBatchValidation demoExtern ?c 0 ?s1 = Inl InvalidBatch"
    using requestBatchValidation_InvalidBatch [of demoExtern ?c 0 ?s1] g by blast
  have i2: "requestBatchValidation demoExtern ?c 2 ?s1 = Inl InvalidBatch"
    using requestBatchValidation_InvalidBatch [of demoExtern ?c 2 ?s1] g le by blast
  have i3: "requestBatchValidation demoExtern ?c 3 ?s1 = Inl InvalidBatch"
    using requestBatchValidation_InvalidBatch [of demoExtern ?c 3 ?s1] g le by blast
  have "\<not> ((1::uint256) = 0 \<or> currentBatchId ?s1 \<le> 1 \<or> closedAt (batches ?s1 1) = 0)"
    using le cl by simp
  then have i1: "\<exists>s'. requestBatchValidation demoExtern ?c 1 ?s1 = Inr s'"
    using requestBatchValidation_InvalidBatch [of demoExtern ?c 1 ?s1] g by blast
  from g cur i0 i2 i3 i1 show ?thesis by (simp add: at_def)
qed

section \<open>The decryption request and its callback\<close>

lemma context_frame:
  assumes "dispatch x c f s = Inr s'" and "\<not> reissues r (c, f)"
  shows "stateHash (decryptionContexts s' r) = stateHash (decryptionContexts s r) \<and>
         (processed (decryptionContexts s r) \<longrightarrow> processed (decryptionContexts s' r))"
proof (cases f)
  case (SubmitAttestation d)
  with assms(1) show ?thesis
    by (auto simp: submitAttestation_def modifier_defs emit_def Let_def
        split: if_splits sum.splits)
next
  case (RequestBatchValidation b)
  with assms show ?thesis
    by (auto simp: requestBatchValidation_def modifier_defs emit_def Let_def reissues_def
        split: if_splits sum.splits)
next
  case (MyCallback r' ct pf)
  with assms(1) show ?thesis
    by (auto simp: myCallback_def emit_def Let_def split: if_splits)
next
  case CloseCurrentBatch
  with assms(1) show ?thesis
    by (auto simp: closeCurrentBatch_def openNewBatch_def onlyOwner_def emit_def Let_def
        split: if_splits sum.splits)
qed (use assms(1) in \<open>auto simp: transferOwnership_def addProvider_def removeProvider_def
      pause_def unpause_def setCooldownSeconds_def modifier_defs emit_def Let_def
      split: if_splits\<close>)

lemma context_frame_transact:
  assumes "\<not> reissues r (c, f)"
  shows "stateHash (decryptionContexts (snd (transact x c f s)) r) =
           stateHash (decryptionContexts s r) \<and>
         (processed (decryptionContexts s r) \<longrightarrow>
            processed (decryptionContexts (snd (transact x c f s)) r))"
proof (cases "dispatch x c f s")
  case (Inl e)
  then show ?thesis by (simp add: transact_def)
next
  case (Inr s')
  with context_frame [OF Inr assms] show ?thesis by (simp add: transact_def)
qed

lemma context_frame_run:
  assumes "\<forall>t\<in>set txs. \<not> reissues r t"
  shows "stateHash (decryptionContexts (run x txs s) r) = stateHash (decryptionContexts s r) \<and>
         (processed (decryptionContexts s r) \<longrightarrow>
            processed (decryptionContexts (run x txs s) r))"
  using assms
proof (induction txs arbitrary: s)
  case Nil
  then show ?case by simp
next
  case (Cons t txs)
  obtain c f where t: "t = (c, f)" by (cases t)
  from Cons.prems t have "\<not> reissues r (c, f)" and rest: "\<forall>t\<in>set txs. \<not> reissues r t"
    by simp_all
  from context_frame_transact [OF this(1), of x s] Cons.IH [OF rest, of "snd (transact x c f s)"]
  show ?case by (simp add: t)
qed

lemma requestBatchValidation_stores:
  assumes "requestBatchValidation x c b s = Inr s'"
  shows "decryptionContexts s' (bridge_requestId c) =
           \<lparr>batchId = b, stateHash = hashCiphertexts x [dummyCiphertext x],
            processed = False\<rparr> \<and>
         lastDecryptionRequestTime s' (msg_sender c) = block_timestamp c"
  using assms
  by (auto simp: requestBatchValidation_def modifier_defs emit_def Let_def
      split: if_splits sum.splits)

lemma myCallback_ReplayAttempt:
  "myCallback x c r ct pf s = Inl ReplayAttempt \<longleftrightarrow> processed (decryptionContexts s r)"
  by (auto simp: myCallback_def Let_def split: if_splits)

lemma myCallback_StateMismatch:
  "\<not> processed (decryptionContexts s r) \<Longrightarrow>
   myCallback x c r ct pf s = Inl StateMismatch \<longleftrightarrow>
     hashCiphertexts x [dummyCiphertext x] \<noteq> stateHash (decryptionContexts s r)"
  by (auto simp: myCallback_def Let_def split: if_splits)

lemma myCallback_success:
  assumes "\<not> processed (decryptionContexts s r)"
    and "stateHash (decryptionContexts s r) = hashCiphertexts x [dummyCiphertext x]"
    and "FHE_checkSignatures x r ct pf" and "length ct = 32"
  shows "\<exists>s'. myCallback x c r ct pf s = Inr s' \<and> processed (decryptionContexts s' r)"
  using assms by (simp add: myCallback_def Let_def emit_def)

text \<open>
  Against claim C1 as stated: on the freshly deployed contract no request was ever
  stored under id 7, and a callback for id 7 fails with \<open>StateMismatch\<close>, not with
  \<open>ReplayAttempt\<close>.
\<close>

theorem callback_unknown_request_counterexample:
  "decryptionContexts deployedStorage 7 = zeroContext \<and>
   myCallback demoExtern (at 2 5000 0) 7 (replicate 32 0) [1] deployedStorage =
     Inl StateMismatch"
  by (simp add: demo_defs model_defs Let_def)

text \<open>
  Claim C1, amended. A callback fails with \<open>ReplayAttempt\<close> exactly when the context
  stored under its request id has \<open>processed\<close> set; an id that was never stored reads as
  an unprocessed zero context and is not rejected as a replay. For a request stored by
  \<open>requestBatchValidation\<close> and not yet processed, a callback with a proof that
  \<open>checkSignatures\<close> accepts and a 32-byte cleartext succeeds and sets \<open>processed\<close>;
  after that, whatever transactions follow, every callback with the same request id
  fails with \<open>ReplayAttempt\<close> whatever its cleartext and proof, as long as the bridge does
  not hand out that request id again.
\<close>

theorem callback_at_most_once:
  assumes "requestBatchValidation x c0 b s0 = Inr s1"
    and "\<forall>t\<in>set before. \<not> reissues (bridge_requestId c0) t"
    and "\<not> processed (decryptionContexts (run x before s1) (bridge_requestId c0))"
    and "FHE_checkSignatures x (bridge_requestId c0) ct pf" and "length ct = 32"
    and "\<forall>t\<in>set later. \<not> reissues (bridge_requestId c0) t"
  shows "(\<forall>s r. myCallback x c r ct pf s = Inl ReplayAttempt \<longleftrightarrow>
            processed (decryptionContexts s r)) \<and>
         (\<exists>s2. myCallback x c (bridge_requestId c0) ct pf (run x before s1) = Inr s2 \<and>
            processed (decryptionContexts s2 (bridge_requestId c0)) \<and>
            myCallback x c' (bridge_requestId c0) ct' pf' (run x later s2) =
              Inl ReplayAttempt)"
proof -
  let ?r = "bridge_requestId c0"
  have "stateHash (decryptionContexts s1 ?r) = hashCiphertexts x [dummyCiphertext x]"
    using requestBatchValidation_stores [OF assms(1)] by simp
  then have "stateHash (decryptionContexts (run x before s1) ?r) =
      hashCiphertexts x [dummyCiphertext x]"
    using context_frame_run [OF assms(2), of x s1] by simp
  from myCallback_success [OF assms(3) this assms(4,5), of c]
  obtain s2 where s2: "myCallback x c ?r ct pf (run x before s1) = Inr s2"
    and p: "processed (decryptionContexts s2 ?r)" by blast
  from p context_frame_run [OF assms(6), of x s2]
  have "processed (decryptionContexts (run x later s2) ?r)" by simp
  then have "myCallback x c' ?r ct' pf' (run x later s2) = Inl ReplayAttempt"
    by (simp add: myCallback_ReplayAttempt)
  with s2 p show ?thesis by (simp add: myCallback_ReplayAttempt)
qed


theorem callback_at_most_once_witness:
  "requestBatchValidation demoExtern (at 1 3000 7) 1 closedStorage = Inr requestedStorage \<and>
   \<not> reissues 7 (at 1 3100 0, SubmitAttestation 6) \<and>
   \<not> processed (decryptionContexts
        (run demoExtern [(at 1 3100 0, SubmitAttestation 6)] requestedStorage) 7) \<and>
   FHE_checkSignatures demoExtern 7 (replicate 32 0) [1] \<and>
   \<not> reissues 7 (at 1 4100 8, RequestBatchValidation 1) \<and>
   (\<exists>s2. myCallback demoExtern (at 2 4000 0) 7 (replicate 32 0) [1]
            (run demoExtern [(at 1 3100 0, SubmitAttestation 6)] requestedStorage) = Inr s2 \<and>
         processed (decryptionContexts s2 7) \<and>
         myCallback demoExtern (at 2 5000 0) 7 (replicate 32 0) [1]
            (run demoExtern [(at 1 4100 8, RequestBatchValidation 1)] s2) =
           Inl ReplayAttempt)"
proof -
  let ?c0 = "at 1 3000 7"
  let ?before = "[(at 1 3100 0, SubmitAttestation 6)]"
  let ?later = "[(at 1 4100 8, RequestBatchValidation 1)]"
  have r: "bridge_requestId ?c0 = 7" by (simp add: at_def)
  have a1: "requestBatchValidation demoExtern ?c0 1 closedStorage = Inr requestedStorage"
    by (simp add: demo_defs model_defs Let_def)
  have a2: "\<forall>t\<in>set ?before. \<not> reissues (bridge_requestId ?c0) t"
    by (simp add: reissues_def)
  have a3: "\<not> processed (decryptionContexts (run demoExtern ?before requestedStorage)
      (bridge_requestId ?c0))"
    by (simp add: demo_defs model_defs Let_def)
  have a4: "FHE_checkSignatures demoExtern (bridge_requestId ?c0) (replicate 32 0) [1]"
    by (simp add: demoExtern_def)
  have a5: "length (replicate 32 (0 :: 8 word)) = 32" by simp
  have a6: "\<forall>t\<in>set ?later. \<not> reissues (bridge_requestId ?c0) t"
    by (simp add: reissues_def at_def)
  from callback_at_most_once [OF a1 a2 a3 a4 a5 a6, of "at 2 4000 0" "at 2 5000 0"
      "replicate 32 0" "[1]"] a1 a2 a3 a4 a6
  show ?thesis unfolding r by simp
qed

text \<open>
  Against claim C2 as stated: batch 1 holds one submission, handle 5, so the hash of its
  live handle list differs from the hash stored with request 7 (taken over the
  placeholder); yet the callback with an accepted proof succeeds instead of failing with
  \<open>StateMismatch\<close>.
\<close>

theorem callback_live_hash_counterexample:
  "\<not> processed (decryptionContexts requestedStorage 7) \<and>
   batchId (decryptionContexts requestedStorage 7) = 1 \<and>
   spec_liveHandles 1 (events requestedStorage) = [5] \<and>
   hashCiphertexts demoExtern (spec_liveHandles 1 (events requestedStorage)) \<noteq>
     stateHash (decryptionContexts requestedStorage 7) \<and>
   fst (transact demoExtern (at 2 4000 0) (MyCallback 7 (replicate 32 0) [1])
          requestedStorage) = Success"
  by (simp add: demo_defs model_defs Let_def)

text \<open>
  Claim C2, amended. On an unprocessed request the callback recomputes the hash from the
  fixed one-element placeholder list, the same list \<open>requestBatchValidation\<close> hashed
  (the contract stores no per-batch ciphertext list), and fails with \<open>StateMismatch\<close>
  exactly when that hash differs from the stored \<open>stateHash\<close>. Hence for a request
  stored by \<open>requestBatchValidation\<close> the stored hash stays equal to the recomputed one
  and the callback never fails with \<open>StateMismatch\<close>, whatever submissions or other
  transactions come between request and callback, as long as the bridge does not hand
  out that request id again.
\<close>

theorem callback_hash_check:
  "(\<not> processed (decryptionContexts s r) \<longrightarrow>
      (myCallback x c r ct pf s = Inl StateMismatch \<longleftrightarrow>
         hashCiphertexts x [dummyCiphertext x] \<noteq> stateHash (decryptionContexts s r))) \<and>
   (requestBatchValidation x c0 b s0 = Inr s1 \<and>
    (\<forall>t\<in>set txs. \<not> reissues (bridge_requestId c0) t) \<longrightarrow>
      stateHash (decryptionContexts (run x txs s1) (bridge_requestId c0)) =
        hashCiphertexts x [dummyCiphertext x] \<and>
      myCallback x c (bridge_requestId c0) ct pf (run x txs s1) \<noteq> Inl StateMismatch)"
proof (intro conjI impI)
  assume "\<not> processed (decryptionContexts s r)"
  then show "myCallback x c r ct pf s = Inl StateMismatch \<longleftrightarrow>
      hashCiphertexts x [dummyCiphertext x] \<noteq> stateHash (decryptionContexts s r)"
    by (rule myCallback_StateMismatch)
next
  assume a: "requestBatchValidation x c0 b s0 = Inr s1 \<and>
    (\<forall>t\<in>set txs. \<not> reissues (bridge_requestId c0) t)"
  then have req: "requestBatchValidation x c0 b s0 = Inr s1"
    and nr: "\<forall>t\<in>set txs. \<not> reissues (bridge_requestId c0) t"
    by simp_all
  have "stateHash (decryptionContexts s1 (bridge_requestId c0)) =
      hashCiphertexts x [dummyCiphertext x]"
    using requestBatchValidation_stores [OF req] by simp
  then show h: "stateHash (decryptionContexts (run x txs s1) (bridge_requestId c0)) =
      hashCiphertexts x [dummyCiphertext x]"
    using context_frame_run [OF nr, of x s1] by simp
  then show "myCallback x c (bridge_requestId c0) ct pf (run x txs s1) \<noteq> Inl StateMismatch"
    by (auto simp: myCallback_def Let_def split: if_splits)
qed

theorem callback_hash_check_witness:
  "\<not> processed (decryptionContexts deployedStorage 7) \<and>
   hashCiphertexts demoExtern [dummyCiphertext demoExtern] \<noteq>
     stateHash (decryptionContexts deployedStorage 7) \<and>
   myCallback demoExtern (at 2 4000 0) 7 (replicate 32 0) [1] deployedStorage =
     Inl StateMismatch \<and>
   requestBatchValidation demoExtern (at 1 3000 7) 1 closedStorage = Inr requestedStorage \<and>
   \<not> reissues 7 (at 1 3100 0, SubmitAttestation 6) \<and>
   stateHash (decryptionContexts
      (run demoExtern [(at 1 3100 0, SubmitAttestation 6)] requestedStorage) 7) =
     hashCiphertexts demoExtern [dummyCiphertext demoExtern] \<and>
   myCallback demoExtern (at 2 4000 0) 7 (replicate 32 0) [1]
      (run demoExtern [(at 1 3100 0, SubmitAttestation 6)] requestedStorage) \<noteq>
     Inl StateMismatch"
proof -
  let ?c0 = "at 1 3000 7"
  let ?txs = "[(at 1 3100 0, SubmitAttestation 6)]"
  have r: "bridge_requestId ?c0 = 7" by (simp add: at_def)
  have p: "\<not> processed (decryptionContexts deployedStorage 7)"
    and h: "hashCiphertexts demoExtern [dummyCiphertext demoExtern] \<noteq>
      stateHash (decryptionContexts deployedStorage 7)"
    by (simp_all add: demo_defs model_defs Let_def)
  have a1: "requestBatchValidation demoExtern ?c0 1 closedStorage = Inr requestedStorage"
    by (simp add: demo_defs model_defs Let_def)
  have a2: "\<forall>t\<in>set ?txs. \<not> reissues (bridge_requestId ?c0) t"
    by (simp add: reissues_def)
  from callback_hash_check [of deployedStorage 7 demoExtern "at 2 4000 0" "replicate 32 0"
      "[1]" ?c0 1 closedStorage requestedStorage ?txs] p h a1 a2
  show ?thesis unfolding r by simp
qed

section \<open>The cooldown of decryption requests\<close>

text \<open>
  Claim C3, evaluated on the code. \<open>requestBatchValidation\<close> runs the same
  \<open>respectCooldown\<close> modifier as \<open>submitAttestation\<close>, and that modifier reads
  \<open>lastSubmissionTime\<close>; \<open>lastDecryptionRequestTime\<close> is written but never read.
  First: the owner closes batch 1 at time 2000 and submits at time 2990, never having
  requested a decryption; the request at time 3000 is rejected with \<open>CooldownActive\<close>
  although the block time is not below \<open>lastDecryptionRequestTime + cooldownSeconds\<close>.
  Second: in \<open>requestedStorage\<close> the request at time 3000 has recorded
  \<open>lastDecryptionRequestTime = 3000\<close>, and another request one second later, inside the
  60 second window, succeeds.
\<close>

theorem requestBatchValidation_cooldown_reads_submission_time:
  "lastDecryptionRequestTime
     (run demoExtern [(at 1 2000 0, CloseCurrentBatch), (at 1 2990 0, SubmitAttestation 5)]
        deployedStorage) 1 = 0 \<and>
   cooldownSeconds
     (run demoExtern [(at 1 2000 0, CloseCurrentBatch), (at 1 2990 0, SubmitAttestation 5)]
        deployedStorage) = 60 \<and>
   \<not> (3000 <
      lastDecryptionRequestTime
        (run demoExtern [(at 1 2000 0, CloseCurrentBatch), (at 1 2990 0, SubmitAttestation 5)]
           deployedStorage) 1 +
      cooldownSeconds
        (run demoExtern [(at 1 2000 0, CloseCurrentBatch), (at 1 2990 0, SubmitAttestation 5)]
           deployedStorage)) \<and>
   lastSubmissionTime
     (run demoExtern [(at 1 2000 0, CloseCurrentBatch), (at 1 2990 0, SubmitAttestation 5)]
        deployedStorage) 1 = 2990 \<and>
   requestBatchValidation demoExtern (at 1 3000 7) 1
     (run demoExtern [(at 1 2000 0, CloseCurrentBatch), (at 1 2990 0, SubmitAttestation 5)]
        deployedStorage) = Inl CooldownActive \<and>
   lastDecryptionRequestTime requestedStorage 1 = 3000 \<and>
   cooldownSeconds requestedStorage = 60 \<and>
   3001 < lastDecryptionRequestTime requestedStorage 1 + cooldownSeconds requestedStorage \<and>
   fst (transact demoExtern (at 1 3001 8) (RequestBatchValidation 1) requestedStorage) =
     Success"
  by (simp add: demo_defs model_defs Let_def)

end
